theory Spec2Isabelle
  imports Main "HOL-Library.AList"
begin

section \<open>Python values and the plan schema\<close>

text \<open>
  A floating-point number is either NaN or a value of the type parameter \<open>'n\<close>, which
  stands for the doubles other than NaN (the infinities included) with their order.
\<close>

datatype 'n pyfloat = NaN | Fin 'n

text \<open>The JSON values a plan holds in its dynamically typed leaves.\<close>

datatype 'n pyval =
    PNone
  | PBool bool
  | PInt int
  | PFloat "'n pyfloat"
  | PStr string
  | PList "'n pyval list"

text \<open>
  A dictionary entry whose value is itself a dictionary: the key may be missing, hold
  \<open>None\<close>, hold the empty dictionary \<open>{}\<close> or hold a non-empty dictionary.
\<close>

datatype 'a jfield = Missing | Null | EmptyDict | Dict 'a

record 'n filter_spec =
  f_column :: string
  operator :: string
  f_value :: "'n pyval"

text \<open>\<open>operation\<close> is read with \<open>m.get("operation")\<close>: \<open>None\<close> is a metric without that key.\<close>

record metric =
  m_column :: string
  operation :: "string option"

text \<open>
  A dictionary entry read with a default: the key may be missing, hold \<open>None\<close> or hold
  a value.
\<close>

datatype 'a entry = NoKey | NoneValue | Value 'a

text \<open>
  The sort dictionary. \<open>sort_by\<close> is read with \<open>.get("by")\<close> and tested for truth, so
  \<open>None\<close> is a missing key or the value \<open>None\<close>; \<open>order\<close> is read with the default
  \<open>"asc"\<close>, which only a missing key takes.
\<close>

record sort_spec =
  sort_by :: "string option"
  sort_order :: "string entry"

text \<open>
  The visualization dictionary. \<open>viz_type = None\<close> is a dictionary without the key
  \<open>type\<close>; for the axes, the colour and \<open>top_n\<close>, which the code reads with \<open>.get\<close>,
  \<open>None\<close> (\<open>PNone\<close>) is a missing key or the value \<open>None\<close>.
\<close>

record 'n viz =
  viz_type :: "string option"
  viz_x :: "string option"
  viz_y :: "string option"
  viz_color :: "string option"
  top_n :: "'n pyval"

record intent =
  focus :: "string option"

text \<open>The plan dictionary: \<open>None\<close> in one of the first four fields is a missing key.\<close>

record 'n plan =
  analysis_type :: "string option"
  filters :: "'n filter_spec list option"
  group_by :: "string list option"
  metrics :: "metric list option"
  sort_cfg :: "sort_spec jfield"
  visualization :: "'n viz jfield"
  user_intent :: "intent jfield"

text \<open>
  Every exception the two modules can raise. The validator raises \<open>ValueError\<close> with a
  message per check; each message is a constructor here.
\<close>

datatype error =
    MissingKey string
  | InvalidAnalysisType string
  | InvalidFilterColumn string
  | InvalidOperator string
  | InvalidOperatorValue
  | InvalidGroupByColumn string
  | InvalidMetricOperation "string option"
  | InvalidMetricColumn string
  | AnalysisTypeMetricConflict string
  | InvalidVisualizationType string
  | HistogramHasY
  | HistogramNoX
  | CorrelationNotScatter
  | CorrelationMissingAxis
  | InvalidXAxis string
  | InvalidYAxisColumn string
  | InvalidTopN
  | InvalidYAxis string "string list"
  | KeyError string
  | IndexError
  | AttributeError
  | TypeError
  | FloatValueError string
  | IntValueError string
  | IntOfNaN
  | OverflowError
  | LibraryError string

section \<open>schemas/plan\_validator.py\<close>

definition ALLOWED_ANALYSIS_TYPES :: "string set" where
  "ALLOWED_ANALYSIS_TYPES =
     {''comparison'', ''trend'', ''aggregation'', ''correlation'', ''distribution''}"

definition ALLOWED_OPERATORS :: "string set" where
  "ALLOWED_OPERATORS = {''=='', ''!='', ''>'', ''<'', ''>='', ''<='', ''in''}"

definition ALLOWED_METRICS :: "string set" where
  "ALLOWED_METRICS = {''sum'', ''mean'', ''count'', ''min'', ''max'', ''median'', ''std''}"

definition ALLOWED_VIZ_TYPES :: "string set" where
  "ALLOWED_VIZ_TYPES = {''bar'', ''line'', ''scatter'', ''histogram''}"

definition INVALID_METRIC_OPERATIONS :: "string set" where
  "INVALID_METRIC_OPERATIONS = {''bar'', ''line'', ''scatter'', ''histogram''}"

text \<open>\<open>v in S\<close> for a value that is a string or \<open>None\<close> and a set of strings.\<close>

definition in_names :: "string option \<Rightarrow> string set \<Rightarrow> bool" where
  "in_names v S = (case v of None \<Rightarrow> False | Some s \<Rightarrow> s \<in> S)"

definition is_list :: "'n pyval \<Rightarrow> bool" where
  "is_list v = (case v of PList _ \<Rightarrow> True | _ \<Rightarrow> False)"

text \<open>The loop over \<open>plan["filters"]\<close>: the first violation is raised.\<close>

fun check_filters :: "'n filter_spec list \<Rightarrow> string list \<Rightarrow> error option" where
  "check_filters [] cols = None"
| "check_filters (f # fs) cols =
     (if f_column f \<notin> set cols then Some (InvalidFilterColumn (f_column f))
      else if operator f \<notin> ALLOWED_OPERATORS then Some (InvalidOperator (operator f))
      else if operator f = ''in'' \<and> \<not> is_list (f_value f) then Some InvalidOperatorValue
      else check_filters fs cols)"

fun check_group_by :: "string list \<Rightarrow> string list \<Rightarrow> error option" where
  "check_group_by [] cols = None"
| "check_group_by (c # cs) cols =
     (if c \<notin> set cols then Some (InvalidGroupByColumn c) else check_group_by cs cols)"

text \<open>
  The metrics cleaning loop. \<open>acc\<close> is \<open>cleaned_metrics\<close>: a chart-type operation is
  skipped (\<open>continue\<close>), any other operation outside \<open>ALLOWED_METRICS\<close> and any unknown
  column raise, and the metric is appended otherwise.
\<close>

fun clean_metrics :: "metric list \<Rightarrow> metric list \<Rightarrow> string list \<Rightarrow> error + metric list" where
  "clean_metrics acc [] cols = Inr acc"
| "clean_metrics acc (m # ms) cols =
     (if in_names (operation m) INVALID_METRIC_OPERATIONS then clean_metrics acc ms cols
      else if \<not> in_names (operation m) ALLOWED_METRICS
        then Inl (InvalidMetricOperation (operation m))
      else if m_column m \<notin> set cols then Inl (InvalidMetricColumn (m_column m))
      else clean_metrics (acc @ [m]) ms cols)"

text \<open>The strings \<open>"null"\<close> and \<open>"NULL"\<close> in \<open>x\<close>, \<open>y\<close>, \<open>color\<close> and \<open>top_n\<close> become \<open>None\<close>.\<close>

definition null_str :: "string option \<Rightarrow> string option" where
  "null_str v = (if v = Some ''null'' \<or> v = Some ''NULL'' then None else v)"

definition null_val :: "'n pyval \<Rightarrow> 'n pyval" where
  "null_val v = (if v = PStr ''null'' \<or> v = PStr ''NULL'' then PNone else v)"

definition null_strings :: "'n viz \<Rightarrow> 'n viz" where
  "null_strings v =
     v\<lparr>viz_x := null_str (viz_x v), viz_y := null_str (viz_y v),
       viz_color := null_str (viz_color v), top_n := null_val (top_n v)\<rparr>"

text \<open>
  The automatic repair of a metric name in the y axis: the target column is the first
  group-by column, or \<open>df_columns[0]\<close> (an \<open>IndexError\<close> on an empty column list).
\<close>

definition target_col :: "string list \<Rightarrow> string list \<Rightarrow> error + string" where
  "target_col gb cols =
     (case gb of
        g # _ \<Rightarrow> Inr g
      | [] \<Rightarrow> (case cols of c # _ \<Rightarrow> Inr c | [] \<Rightarrow> Inl IndexError))"

definition auto_fix ::
  "string list \<Rightarrow> string list \<Rightarrow> metric list \<Rightarrow> 'n viz \<Rightarrow> error + (metric list \<times> 'n viz)" where
  "auto_fix gb cols ms v =
     (if in_names (viz_y v) ALLOWED_METRICS then
        (case target_col gb cols of
           Inl e \<Rightarrow> Inl e
         | Inr t \<Rightarrow> Inr (ms @ [\<lparr>m_column = t, operation = viz_y v\<rparr>], v\<lparr>viz_y := Some t\<rparr>))
      else Inr (ms, v))"

text \<open>
  \<open>top_n\<close>, when not \<open>None\<close>, must be an \<open>int\<close> greater than zero; Python's \<open>bool\<close> is a
  subclass of \<open>int\<close>, so \<open>True\<close> passes and \<open>False\<close> does not.
\<close>

definition top_n_ok :: "'n pyval \<Rightarrow> bool" where
  "top_n_ok v = (case v of PNone \<Rightarrow> True | PInt n \<Rightarrow> 0 < n | PBool b \<Rightarrow> b | _ \<Rightarrow> False)"

text \<open>The type rules, the axis validation and the \<open>top_n\<close> check, in the source's order.\<close>

definition check_viz :: "string \<Rightarrow> string \<Rightarrow> string list \<Rightarrow> 'n viz \<Rightarrow> error option" where
  "check_viz at t cols v =
     (if t = ''histogram'' \<and> viz_y v \<noteq> None then Some HistogramHasY
      else if t = ''histogram'' \<and> viz_x v = None then Some HistogramNoX
      else if at = ''correlation'' \<and> t \<noteq> ''scatter'' then Some CorrelationNotScatter
      else if at = ''correlation'' \<and> (viz_x v = None \<or> viz_y v = None)
        then Some CorrelationMissingAxis
      else if viz_x v \<noteq> None \<and> the (viz_x v) \<notin> set cols then Some (InvalidXAxis (the (viz_x v)))
      else if viz_y v \<noteq> None \<and> the (viz_y v) \<notin> set cols
        then Some (InvalidYAxisColumn (the (viz_y v)))
      else if \<not> top_n_ok (top_n v) then Some InvalidTopN
      else None)"

text \<open>
  Everything after the cleaning of the metrics. The function returns the plan as the
  source leaves it: \<open>metrics\<close> and \<open>visualization\<close> are updated in place.
\<close>

definition validate_viz ::
  "string \<Rightarrow> string list \<Rightarrow> metric list \<Rightarrow> string list \<Rightarrow> 'n viz \<Rightarrow> 'n plan \<Rightarrow> error + 'n plan" where
  "validate_viz at gb cleaned cols v0 p =
     (let v1 = null_strings v0 in
      case viz_type v1 of
        None \<Rightarrow> Inl (KeyError ''type'')
      | Some t \<Rightarrow>
          if t \<notin> ALLOWED_VIZ_TYPES then Inl (InvalidVisualizationType t)
          else (case auto_fix gb cols cleaned v1 of
                  Inl e \<Rightarrow> Inl e
                | Inr (ms2, v2) \<Rightarrow>
                    (case check_viz at t cols v2 of
                       Some e \<Rightarrow> Inl e
                     | None \<Rightarrow> Inr (p\<lparr>metrics := Some ms2, visualization := Dict v2\<rparr>))))"

definition validate_body ::
  "string \<Rightarrow> 'n filter_spec list \<Rightarrow> string list \<Rightarrow> metric list \<Rightarrow> 'n plan \<Rightarrow> string list
     \<Rightarrow> error + 'n plan" where
  "validate_body at fs gb ms p cols =
     (if at \<notin> ALLOWED_ANALYSIS_TYPES then Inl (InvalidAnalysisType at)
      else case check_filters fs cols of
        Some e \<Rightarrow> Inl e
      | None \<Rightarrow>
          (case check_group_by gb cols of
             Some e \<Rightarrow> Inl e
           | None \<Rightarrow>
               (case clean_metrics [] ms cols of
                  Inl e \<Rightarrow> Inl e
                | Inr cleaned \<Rightarrow>
                    if at \<in> {''distribution'', ''correlation''} \<and> cleaned \<noteq> []
                    then Inl (AnalysisTypeMetricConflict at)
                    else (case visualization p of
                            Dict v \<Rightarrow> validate_viz at gb cleaned cols v p
                          | _ \<Rightarrow> Inr (p\<lparr>metrics := Some cleaned\<rparr>)))))"

text \<open>
  \<open>validate_plan\<close>: the six required keys first, in the order of \<open>required_keys\<close>, then
  the body. \<open>Inr\<close> holds the normalized plan (the source returns \<open>True\<close> and has updated
  the dictionary it was given).
\<close>

definition validate_plan :: "'n plan \<Rightarrow> string list \<Rightarrow> error + 'n plan" where
  "validate_plan p cols =
     (case analysis_type p of
        None \<Rightarrow> Inl (MissingKey ''analysis_type'')
      | Some at \<Rightarrow>
     (case filters p of
        None \<Rightarrow> Inl (MissingKey ''filters'')
      | Some fs \<Rightarrow>
     (case group_by p of
        None \<Rightarrow> Inl (MissingKey ''group_by'')
      | Some gb \<Rightarrow>
     (case metrics p of
        None \<Rightarrow> Inl (MissingKey ''metrics'')
      | Some ms \<Rightarrow>
          if sort_cfg p = Missing then Inl (MissingKey ''sort'')
          else if visualization p = Missing then Inl (MissingKey ''visualization'')
          else validate_body at fs gb ms p cols))))"


section \<open>Tables and the libraries the executor calls\<close>

text \<open>
  The text of a cell is the list of its Unicode code points, since \<open>str.strip()\<close> works
  on code points. Names of columns and the strings of a plan are only compared and
  searched for ASCII delimiters, and stay of type \<open>string\<close>.
\<close>

type_synonym utext = "nat list"

text \<open>The code points of a literal written in ASCII.\<close>

definition text_of :: "string \<Rightarrow> utext" where
  "text_of s = map of_char s"

text \<open>
  The dtype of a column: \<open>object\<close> (Python objects, what \<open>read_csv\<close> gives a column of
  text), the numeric dtypes, \<open>bool\<close>, and the two dedicated dtypes whose columns also
  hold text, \<open>string\<close> and \<open>category\<close>.
\<close>

datatype dtype = ObjectT | NumericT | BoolT | StringT | CategoryT

text \<open>A cell; \<open>CNum NaN\<close> is the missing value.\<close>

datatype 'n cell = CStr utext | CNum "'n pyfloat" | CInt int | CBool bool

record 'n table =
  columns :: "(string \<times> dtype) list"
  rows :: "(string \<Rightarrow> 'n cell) list"

definition names :: "'n table \<Rightarrow> string list" where
  "names t = map fst (columns t)"

text \<open>
  The cells a column of each dtype can hold: any object in an \<open>object\<close> or \<open>category\<close>
  column, numbers in a numeric one, text or the missing value in a \<open>string\<close> one.
\<close>

definition cell_fits :: "dtype \<Rightarrow> 'n cell \<Rightarrow> bool" where
  "cell_fits dt c =
     (case dt of
        ObjectT \<Rightarrow> True
      | CategoryT \<Rightarrow> True
      | NumericT \<Rightarrow> (case c of CNum _ \<Rightarrow> True | CInt _ \<Rightarrow> True | _ \<Rightarrow> False)
      | BoolT \<Rightarrow> (case c of CBool _ \<Rightarrow> True | _ \<Rightarrow> False)
      | StringT \<Rightarrow> (case c of CStr _ \<Rightarrow> True | CNum NaN \<Rightarrow> True | _ \<Rightarrow> False))"

definition well_typed :: "'n table \<Rightarrow> bool" where
  "well_typed t = list_all (\<lambda>(n, dt). list_all (\<lambda>r. cell_fits dt (r n)) (rows t)) (columns t)"

text \<open>The chart request handed to plotly: the kind, the axes and the colour.\<close>

record chart =
  chart_type :: string
  chart_x :: string
  chart_y :: "string option"
  chart_color :: "string option"

text \<open>
  What pandas, plotly, \<open>json\<close> and Python's number conversions do is not code of this
  repository. The executor is modelled over a record of these operations, and every
  theorem about it holds for any such record:
  \<^item> \<open>astype_str\<close>: \<open>str\<close> of a cell that is not a string (\<open>Series.astype(str)\<close>);
  \<^item> \<open>to_numeric\<close>: \<open>pd.to_numeric(errors="coerce")\<close> on one string, \<open>NaN\<close> when it does
    not parse;
  \<^item> \<open>float_of_str\<close>: \<open>float(s)\<close>, \<open>None\<close> when it raises \<open>ValueError\<close>;
  \<^item> \<open>float_of_int\<close>: \<open>float(i)\<close>, \<open>None\<close> when it raises \<open>OverflowError\<close>;
  \<^item> \<open>int_of_str\<close>: \<open>int(s)\<close>, \<open>None\<close> when it raises \<open>ValueError\<close>;
  \<^item> \<open>int_of_float\<close>: \<open>int(x)\<close> for a float other than NaN, \<open>None\<close> when it raises
    \<open>OverflowError\<close> (an infinity);
  \<^item> \<open>as_integer\<close>: the integer a float is equal to, \<open>None\<close> when it equals none;
  \<^item> \<open>json_loads\<close>: \<open>json.loads\<close> on a text that starts with \<open>[\<close> and ends with \<open>]\<close>: the
    list it denotes, \<open>None\<close> when it raises;
  \<^item> \<open>series_eq\<close>, \<open>series_ne\<close>, \<open>series_isin\<close>: the masks of \<open>==\<close>, \<open>!=\<close> and \<open>isin\<close>
    on a column, or the message of the exception;
  \<^item> \<open>groupby_agg\<close>, \<open>drop_duplicates\<close>, \<open>sort_values\<close>: the data frame operations of
    these names;
  \<^item> \<open>px_chart\<close>: the exception of \<open>px.bar\<close>, \<open>px.line\<close>, \<open>px.scatter\<close> or
    \<open>px.histogram\<close> on a request, \<open>None\<close> when the figure is built.
\<close>

record 'n library =
  astype_str :: "'n cell \<Rightarrow> utext"
  to_numeric :: "utext \<Rightarrow> 'n pyfloat"
  float_of_str :: "string \<Rightarrow> 'n pyfloat option"
  float_of_int :: "int \<Rightarrow> 'n option"
  int_of_str :: "string \<Rightarrow> int option"
  int_of_float :: "'n \<Rightarrow> int option"
  as_integer :: "'n \<Rightarrow> int option"
  json_loads :: "string \<Rightarrow> 'n pyval list option"
  series_eq :: "'n cell list \<Rightarrow> 'n pyval \<Rightarrow> string + bool list"
  series_ne :: "'n cell list \<Rightarrow> 'n pyval \<Rightarrow> string + bool list"
  series_isin :: "'n cell list \<Rightarrow> 'n pyval list \<Rightarrow> string + bool list"
  groupby_agg :: "'n table \<Rightarrow> string list \<Rightarrow> (string \<times> string) list \<Rightarrow> string + 'n table"
  drop_duplicates :: "'n table \<Rightarrow> 'n table"
  sort_values :: "'n table \<Rightarrow> string \<Rightarrow> bool \<Rightarrow> string + 'n table"
  px_chart :: "'n table \<Rightarrow> chart \<Rightarrow> string option"

definition lib_result :: "string + 'a \<Rightarrow> error + 'a" where
  "lib_result r = (case r of Inl msg \<Rightarrow> Inl (LibraryError msg) | Inr x \<Rightarrow> Inr x)"

section \<open>executor/executor.py\<close>

subsection \<open>\_coerce\_numeric\<close>

definition cell_str :: "'n library \<Rightarrow> 'n cell \<Rightarrow> utext" where
  "cell_str lib c = (case c of CStr s \<Rightarrow> s | _ \<Rightarrow> astype_str lib c)"

text \<open>\<open>.str.replace("%", "", regex=False)\<close>; the code point of \<open>%\<close> is 37.\<close>

definition remove_percent :: "utext \<Rightarrow> utext" where
  "remove_percent s = filter (\<lambda>c. c \<noteq> 37) s"

text \<open>
  The code points \<open>str.strip()\<close> removes, which are those \<open>str.isspace\<close> accepts:
  U+0009 to U+000D, U+001C to U+001F, U+0020, U+0085, U+00A0, U+1680, U+2000 to U+200A,
  U+2028, U+2029, U+202F, U+205F and U+3000.
\<close>

definition is_space :: "nat \<Rightarrow> bool" where
  "is_space c \<longleftrightarrow>
     (9 \<le> c \<and> c \<le> 13) \<or> (28 \<le> c \<and> c \<le> 32) \<or> c = 133 \<or> c = 160 \<or> c = 5760
     \<or> (8192 \<le> c \<and> c \<le> 8202) \<or> c = 8232 \<or> c = 8233 \<or> c = 8239 \<or> c = 8287
     \<or> c = 12288"

definition strip :: "utext \<Rightarrow> utext" where
  "strip s = rev (dropWhile is_space (rev (dropWhile is_space s)))"

definition coerce_cell :: "'n library \<Rightarrow> 'n cell \<Rightarrow> 'n pyfloat" where
  "coerce_cell lib c = to_numeric lib (strip (remove_percent (cell_str lib c)))"

definition coerce_numeric :: "'n library \<Rightarrow> 'n cell list \<Rightarrow> 'n cell list" where
  "coerce_numeric lib cells = map (\<lambda>c. CNum (coerce_cell lib c)) cells"

subsection \<open>Filters\<close>

definition relational :: "string set" where
  "relational = {''>'', ''<'', ''>='', ''<=''}"

text \<open>
  A string value that starts with \<open>[\<close> and ends with \<open>]\<close> is read as a list, single
  quotes replaced by double ones; when \<open>json.loads\<close> raises the value stays as it is.
\<close>

definition parse_list_literal :: "'n library \<Rightarrow> 'n pyval \<Rightarrow> 'n pyval" where
  "parse_list_literal lib v =
     (case v of
        PStr s \<Rightarrow>
          if take 1 s = ''['' \<and> s \<noteq> [] \<and> last s = CHR '']'' then
            (case json_loads lib (map (\<lambda>c. if c = CHR 0x27 then CHR 0x22 else c) s) of
               Some xs \<Rightarrow> PList xs
             | None \<Rightarrow> v)
          else v
      | _ \<Rightarrow> v)"

text \<open>\<open>float(val)\<close>, with the exception it raises.\<close>

definition py_float :: "'n library \<Rightarrow> 'n pyval \<Rightarrow> error + 'n pyfloat" where
  "py_float lib v =
     (case v of
        PStr s \<Rightarrow> (case float_of_str lib s of None \<Rightarrow> Inl (FloatValueError s) | Some x \<Rightarrow> Inr x)
      | PInt i \<Rightarrow> (case float_of_int lib i of None \<Rightarrow> Inl OverflowError | Some x \<Rightarrow> Inr (Fin x))
      | PBool b \<Rightarrow>
          (case float_of_int lib (if b then 1 else 0) of
             None \<Rightarrow> Inl OverflowError
           | Some x \<Rightarrow> Inr (Fin x))
      | PFloat x \<Rightarrow> Inr x
      | PNone \<Rightarrow> Inl TypeError
      | PList _ \<Rightarrow> Inl TypeError)"

text \<open>\<open>working_df[col]\<close> and \<open>working_df[col] = series\<close> for a column that exists.\<close>

definition get_column :: "'n table \<Rightarrow> string \<Rightarrow> error + 'n cell list" where
  "get_column t c = (if c \<in> set (names t) then Inr (map (\<lambda>r. r c) (rows t)) else Inl (KeyError c))"

definition set_column :: "'n table \<Rightarrow> string \<Rightarrow> dtype \<Rightarrow> 'n cell list \<Rightarrow> 'n table" where
  "set_column t c dt cells =
     \<lparr>columns = map (\<lambda>(n, d). if n = c then (n, dt) else (n, d)) (columns t),
      rows = map (\<lambda>(r, v). r(c := v)) (zip (rows t) cells)\<rparr>"

text \<open>\<open>working_df[mask]\<close>: the rows whose mask entry is true.\<close>

definition select_rows :: "'n table \<Rightarrow> bool list \<Rightarrow> 'n table" where
  "select_rows t keep = t\<lparr>rows := map fst (filter snd (zip (rows t) keep))\<rparr>"

text \<open>
  One entry of the mask of \<open>working_df[col] > val\<close> and its siblings, on a coerced
  column: a comparison with a missing value is false.
\<close>

definition rel_holds :: "string \<Rightarrow> 'n::linorder \<Rightarrow> 'n \<Rightarrow> bool" where
  "rel_holds op x v =
     (if op = ''>'' then v < x
      else if op = ''<'' then x < v
      else if op = ''>='' then v \<le> x
      else x \<le> v)"

definition cell_rel :: "string \<Rightarrow> 'n::linorder cell \<Rightarrow> 'n pyfloat \<Rightarrow> bool" where
  "cell_rel op c v =
     (case c of
        CNum (Fin x) \<Rightarrow> (case v of Fin y \<Rightarrow> rel_holds op x y | NaN \<Rightarrow> False)
      | _ \<Rightarrow> False)"

text \<open>One turn of the filter loop.\<close>

definition apply_filter :: "'n::linorder library \<Rightarrow> 'n table \<Rightarrow> 'n filter_spec \<Rightarrow> error + 'n table" where
  "apply_filter lib t f =
     (let col = f_column f; op = operator f; val = parse_list_literal lib (f_value f) in
      if op \<in> relational then
        (case get_column t col of
           Inl e \<Rightarrow> Inl e
         | Inr cells \<Rightarrow>
             (let t1 = set_column t col NumericT (coerce_numeric lib cells) in
              case py_float lib val of
                Inl e \<Rightarrow> Inl e
              | Inr v \<Rightarrow> Inr (t1\<lparr>rows := filter (\<lambda>r. cell_rel op (r col) v) (rows t1)\<rparr>)))
      else if op = ''=='' then
        (case get_column t col of
           Inl e \<Rightarrow> Inl e
         | Inr cells \<Rightarrow>
             (case lib_result (series_eq lib cells val) of
                Inl e \<Rightarrow> Inl e
              | Inr keep \<Rightarrow> Inr (select_rows t keep)))
      else if op = ''!='' then
        (case get_column t col of
           Inl e \<Rightarrow> Inl e
         | Inr cells \<Rightarrow>
             (case lib_result (series_ne lib cells val) of
                Inl e \<Rightarrow> Inl e
              | Inr keep \<Rightarrow> Inr (select_rows t keep)))
      else if op = ''in'' then
        (case get_column t col of
           Inl e \<Rightarrow> Inl e
         | Inr cells \<Rightarrow>
             (case lib_result
                     (series_isin lib cells (case val of PList xs \<Rightarrow> xs | _ \<Rightarrow> [val])) of
                Inl e \<Rightarrow> Inl e
              | Inr keep \<Rightarrow> Inr (select_rows t keep)))
      else Inr t)"

fun apply_filters :: "'n::linorder library \<Rightarrow> 'n table \<Rightarrow> 'n filter_spec list \<Rightarrow> error + 'n table" where
  "apply_filters lib t [] = Inr t"
| "apply_filters lib t (f # fs) =
     (case apply_filter lib t f of Inl e \<Rightarrow> Inl e | Inr t' \<Rightarrow> apply_filters lib t' fs)"


subsection \<open>Aggregation\<close>

text \<open>\<open>plan.get(key, [])\<close> for the three list-valued keys.\<close>

definition plan_filters :: "'n plan \<Rightarrow> 'n filter_spec list" where
  "plan_filters p = (case filters p of Some fs \<Rightarrow> fs | None \<Rightarrow> [])"

definition plan_metrics :: "'n plan \<Rightarrow> metric list" where
  "plan_metrics p = (case metrics p of Some ms \<Rightarrow> ms | None \<Rightarrow> [])"

definition plan_group_by :: "'n plan \<Rightarrow> string list" where
  "plan_group_by p = (case group_by p of Some gb \<Rightarrow> gb | None \<Rightarrow> [])"

text \<open>
  \<open>Series.nunique()\<close>: the number of distinct values, the missing value left out. The
  values are told apart as Python does, by \<open>==\<close> and \<open>hash\<close>: a boolean is the integer
  0 or 1 and a float equal to an integer is that integer. \<open>cell_key\<close> maps every cell to
  the representative of its class.
\<close>

definition cell_key :: "'n library \<Rightarrow> 'n cell \<Rightarrow> 'n cell" where
  "cell_key lib c =
     (case c of
        CBool b \<Rightarrow> CInt (if b then 1 else 0)
      | CNum (Fin x) \<Rightarrow> (case as_integer lib x of Some i \<Rightarrow> CInt i | None \<Rightarrow> c)
      | _ \<Rightarrow> c)"

definition nunique :: "'n library \<Rightarrow> 'n cell list \<Rightarrow> nat" where
  "nunique lib cells =
     length (remdups (map (cell_key lib) (filter (\<lambda>c. c \<noteq> CNum NaN) cells)))"

text \<open>\<open>pd.DataFrame({"count": [n]})\<close>.\<close>

definition count_table :: "nat \<Rightarrow> 'n table" where
  "count_table n =
     \<lparr>columns = [(''count'', NumericT)], rows = [(\<lambda>_. CNum NaN)(''count'' := CInt (int n))]\<rparr>"

definition count_only :: "'n library \<Rightarrow> 'n table \<Rightarrow> string \<Rightarrow> error + 'n table" where
  "count_only lib w c =
     (case map_of (columns w) c of
        None \<Rightarrow> Inl (KeyError c)
      | Some dt \<Rightarrow>
          if dt \<noteq> ObjectT then Inr (count_table (length (rows w)))
          else Inr (count_table (nunique lib (map (\<lambda>r. r c) (rows w)))))"

text \<open>
  The loop that builds \<open>agg_map\<close>, a dictionary from column to operation:
  \<open>m["operation"]\<close> raises \<open>KeyError\<close> on a metric without that key, a metric on a
  group-by column is skipped, and a later metric on the same column replaces the earlier.
\<close>

fun build_agg_map ::
  "(string \<times> string) list \<Rightarrow> metric list \<Rightarrow> string list \<Rightarrow> error + (string \<times> string) list" where
  "build_agg_map agg_map [] gb = Inr agg_map"
| "build_agg_map agg_map (m # ms) gb =
     (case operation m of
        None \<Rightarrow> Inl (KeyError ''operation'')
      | Some op \<Rightarrow>
          if m_column m \<in> set gb then build_agg_map agg_map ms gb
          else build_agg_map (AList.update (m_column m) op agg_map) ms gb)"

text \<open>\<open>working_df[group_by]\<close>: the listed columns, \<open>KeyError\<close> when one is not there.\<close>

definition select_columns :: "'n table \<Rightarrow> string list \<Rightarrow> error + 'n table" where
  "select_columns w gb =
     (case find (\<lambda>g. g \<notin> set (names w)) gb of
        Some g \<Rightarrow> Inl (KeyError g)
      | None \<Rightarrow> Inr (w\<lparr>columns := map (\<lambda>g. (g, the (map_of (columns w) g))) gb\<rparr>))"

definition grouped :: "'n library \<Rightarrow> 'n table \<Rightarrow> metric list \<Rightarrow> string list \<Rightarrow> error + 'n table" where
  "grouped lib w ms gb =
     (case build_agg_map [] ms gb of
        Inl e \<Rightarrow> Inl e
      | Inr agg_map \<Rightarrow>
          if agg_map \<noteq> [] then lib_result (groupby_agg lib w gb agg_map)
          else (case select_columns w gb of
                  Inl e \<Rightarrow> Inl e
                | Inr t \<Rightarrow> Inr (drop_duplicates lib t)))"

text \<open>
  The three branches of the aggregation: the count of a single column, the grouped
  aggregation, and the filtered table as it is.
\<close>

definition aggregate :: "'n library \<Rightarrow> 'n table \<Rightarrow> metric list \<Rightarrow> string list \<Rightarrow> error + 'n table" where
  "aggregate lib w ms gb =
     (case (gb, ms) of
        ([], [m]) \<Rightarrow>
          (case operation m of
             None \<Rightarrow> Inl (KeyError ''operation'')
           | Some op \<Rightarrow> if op = ''count'' then count_only lib w (m_column m) else Inr w)
      | ([], _) \<Rightarrow> Inr w
      | (_, _) \<Rightarrow> grouped lib w ms gb)"

subsection \<open>Sorting and top N\<close>

text \<open>
  \<open>ascending = sort_cfg.get("order", "asc") == "asc"\<close>: true without the key \<open>order\<close>,
  false when the key holds \<open>None\<close>.
\<close>

definition ascending :: "sort_spec \<Rightarrow> bool" where
  "ascending s =
     (case sort_order s of NoKey \<Rightarrow> True | NoneValue \<Rightarrow> False | Value ord \<Rightarrow> ord = ''asc'')"

definition sort_stage :: "'n library \<Rightarrow> 'n table \<Rightarrow> sort_spec jfield \<Rightarrow> error + 'n table" where
  "sort_stage lib r sc =
     (case sc of
        Dict s \<Rightarrow>
          (case sort_by s of
             Some by_col \<Rightarrow>
               if by_col \<noteq> [] \<and> by_col \<in> set (names r)
               then lib_result (sort_values lib r by_col (ascending s))
               else Inr r
           | None \<Rightarrow> Inr r)
      | _ \<Rightarrow> Inr r)"

text \<open>
  Python's truth value of \<open>top_n\<close> and \<open>int(top_n)\<close>; \<open>int\<close> of NaN raises \<open>ValueError\<close>
  and \<open>int\<close> of an infinity \<open>OverflowError\<close>.
\<close>

definition truthy :: "'n::zero pyval \<Rightarrow> bool" where
  "truthy v =
     (case v of
        PNone \<Rightarrow> False
      | PBool b \<Rightarrow> b
      | PInt i \<Rightarrow> i \<noteq> 0
      | PFloat x \<Rightarrow> x \<noteq> Fin 0
      | PStr s \<Rightarrow> s \<noteq> []
      | PList xs \<Rightarrow> xs \<noteq> [])"

definition py_int :: "'n library \<Rightarrow> 'n pyval \<Rightarrow> error + int" where
  "py_int lib v =
     (case v of
        PInt i \<Rightarrow> Inr i
      | PBool b \<Rightarrow> Inr (if b then 1 else 0)
      | PStr s \<Rightarrow> (case int_of_str lib s of None \<Rightarrow> Inl (IntValueError s) | Some i \<Rightarrow> Inr i)
      | PFloat NaN \<Rightarrow> Inl IntOfNaN
      | PFloat (Fin x) \<Rightarrow>
          (case int_of_float lib x of None \<Rightarrow> Inl OverflowError | Some i \<Rightarrow> Inr i)
      | PNone \<Rightarrow> Inl TypeError
      | PList _ \<Rightarrow> Inl TypeError)"

text \<open>\<open>DataFrame.head(n)\<close>: the first \<open>n\<close> rows, or all but the last \<open>-n\<close> for a negative \<open>n\<close>.\<close>

definition head :: "int \<Rightarrow> 'n table \<Rightarrow> 'n table" where
  "head n t =
     t\<lparr>rows := (if 0 \<le> n then take (nat n) (rows t)
                else take (length (rows t) - nat (- n)) (rows t))\<rparr>"

text \<open>
  \<open>plan.get("visualization", {})\<close> and \<open>plan.get("user_intent", {})\<close>, then \<open>.get\<close> on the
  result: a key that holds \<open>None\<close> raises \<open>AttributeError\<close>.
\<close>

definition plan_top_n :: "'n plan \<Rightarrow> error + 'n pyval" where
  "plan_top_n p =
     (case visualization p of
        Null \<Rightarrow> Inl AttributeError
      | Dict v \<Rightarrow> Inr (top_n v)
      | _ \<Rightarrow> Inr PNone)"

definition plan_focus :: "'n plan \<Rightarrow> error + string option" where
  "plan_focus p =
     (case user_intent p of
        Null \<Rightarrow> Inl AttributeError
      | Dict i \<Rightarrow> Inr (focus i)
      | _ \<Rightarrow> Inr None)"

definition top_n_stage :: "'n::zero library \<Rightarrow> 'n table \<Rightarrow> 'n plan \<Rightarrow> error + 'n table" where
  "top_n_stage lib r p =
     (case plan_top_n p of
        Inl e \<Rightarrow> Inl e
      | Inr tn \<Rightarrow>
          (case plan_focus p of
             Inl e \<Rightarrow> Inl e
           | Inr fc \<Rightarrow>
               if fc \<noteq> Some ''both'' \<and> truthy tn then
                 (case py_int lib tn of Inl e \<Rightarrow> Inl e | Inr n \<Rightarrow> Inr (head n r))
               else Inr r))"

subsection \<open>Visualization\<close>

text \<open>The truth value of an axis: a string that is not empty.\<close>

definition given :: "string option \<Rightarrow> bool" where
  "given a = (case a of Some s \<Rightarrow> s \<noteq> [] | None \<Rightarrow> False)"

text \<open>An unset \<open>y\<close> becomes the first metric column among the result's columns.\<close>

definition resolve_y :: "string option \<Rightarrow> metric list \<Rightarrow> string list \<Rightarrow> string option" where
  "resolve_y y ms cols =
     (if y = None \<and> ms \<noteq> [] then
        (case find (\<lambda>m. m_column m \<in> set cols) ms of
           Some m \<Rightarrow> Some (m_column m)
         | None \<Rightarrow> None)
      else y)"

definition px :: "'n library \<Rightarrow> 'n table \<Rightarrow> chart \<Rightarrow> error + chart option" where
  "px lib r c = (case px_chart lib r c of Some msg \<Rightarrow> Inl (LibraryError msg) | None \<Rightarrow> Inr (Some c))"

text \<open>The \<open>if\<close>/\<open>elif\<close> chain over the chart type; no branch taken leaves \<open>fig = None\<close>.\<close>

definition make_chart ::
  "'n library \<Rightarrow> 'n table \<Rightarrow> string \<Rightarrow> string option \<Rightarrow> string option \<Rightarrow> string option
     \<Rightarrow> error + chart option" where
  "make_chart lib r t x y color =
     (if t \<in> {''bar'', ''line'', ''scatter''} \<and> given x \<and> given y then
        px lib r \<lparr>chart_type = t, chart_x = the x, chart_y = y, chart_color = color\<rparr>
      else if t = ''histogram'' \<and> given x then
        px lib r \<lparr>chart_type = t, chart_x = the x, chart_y = None, chart_color = color\<rparr>
      else Inr None)"

definition visualization_step ::
  "'n library \<Rightarrow> 'n table \<Rightarrow> 'n viz jfield \<Rightarrow> metric list \<Rightarrow> error + chart option" where
  "visualization_step lib r vz ms =
     (case vz of
        Dict v \<Rightarrow>
          (case viz_type v of
             Some t \<Rightarrow>
               if t \<noteq> [] then
                 (let y = resolve_y (viz_y v) ms (names r) in
                  if given y \<and> the y \<notin> set (names r)
                  then Inl (InvalidYAxis (the y) (names r))
                  else make_chart lib r t (viz_x v) y (viz_color v))
               else Inr None
           | None \<Rightarrow> Inr None)
      | _ \<Rightarrow> Inr None)"

subsection \<open>execute\_plan\<close>

text \<open>
  The stages up to the truncation: the result table and the filtered table
  (\<open>original_filtered_df\<close>).
\<close>

definition sorted_result ::
  "'n::{linorder,zero} library \<Rightarrow> 'n table \<Rightarrow> 'n plan \<Rightarrow> error + ('n table \<times> 'n table)" where
  "sorted_result lib df p =
     (case apply_filters lib df (plan_filters p) of
        Inl e \<Rightarrow> Inl e
      | Inr w \<Rightarrow>
          (case aggregate lib w (plan_metrics p) (plan_group_by p) of
             Inl e \<Rightarrow> Inl e
           | Inr r \<Rightarrow>
               (case sort_stage lib r (sort_cfg p) of
                  Inl e \<Rightarrow> Inl e
                | Inr r' \<Rightarrow> Inr (r', w))))"

definition truncated_result ::
  "'n::{linorder,zero} library \<Rightarrow> 'n table \<Rightarrow> 'n plan \<Rightarrow> error + ('n table \<times> 'n table)" where
  "truncated_result lib df p =
     (case sorted_result lib df p of
        Inl e \<Rightarrow> Inl e
      | Inr (r, w) \<Rightarrow>
          (case top_n_stage lib r p of Inl e \<Rightarrow> Inl e | Inr r' \<Rightarrow> Inr (r', w)))"

text \<open>
  \<open>execute_plan\<close> returns \<open>(result_df, fig, original_filtered_df)\<close>, or raises: an
  exception of any stage is the whole outcome of the call.
\<close>

definition execute_plan ::
  "'n::{linorder,zero} library \<Rightarrow> 'n table \<Rightarrow> 'n plan
     \<Rightarrow> error + ('n table \<times> chart option \<times> 'n table)" where
  "execute_plan lib df p =
     (case truncated_result lib df p of
        Inl e \<Rightarrow> Inl e
      | Inr (r, w) \<Rightarrow>
          (case visualization_step lib r (visualization p) (plan_metrics p) of
             Inl e \<Rightarrow> Inl e
           | Inr fig \<Rightarrow> Inr (r, fig, w)))"

section \<open>A library instance and data for running scenarios\<close>

text \<open>
  \<open>scenario_lib\<close> is an executable instance of the library record, used only to run the
  concrete scenarios below; the theorems about the executor are proved for every
  library. Its numbers are the whole numbers: the parsers read an optionally signed
  decimal literal without fraction or exponent, surrounded by white space, and reject
  every other text, as Python and pandas do on the texts of the scenarios. The
  comparisons \<open>==\<close>, \<open>!=\<close> and \<open>isin\<close>, grouping and sorting are not provided (they answer
  \<open>unsupported\<close>) and \<open>json_loads\<close> reads no list; no scenario reaches them. \<open>px_chart\<close>
  refuses an axis or colour that is not a column of the table, as plotly does.
\<close>

definition digit_value :: "nat \<Rightarrow> nat option" where
  "digit_value c = (if 48 \<le> c \<and> c \<le> 57 then Some (c - 48) else None)"

fun digits_value :: "nat \<Rightarrow> utext \<Rightarrow> nat option" where
  "digits_value acc [] = Some acc"
| "digits_value acc (c # cs) =
     (case digit_value c of None \<Rightarrow> None | Some d \<Rightarrow> digits_value (10 * acc + d) cs)"

text \<open>The code points of \<open>-\<close> and \<open>+\<close> are 45 and 43.\<close>

definition parse_whole :: "utext \<Rightarrow> int option" where
  "parse_whole s =
     (case strip s of
        [] \<Rightarrow> None
      | c # cs \<Rightarrow>
          if c = 45 then (if cs = [] then None else map_option (\<lambda>n. - int n) (digits_value 0 cs))
          else if c = 43 then (if cs = [] then None else map_option int (digits_value 0 cs))
          else map_option int (digits_value 0 (c # cs)))"

fun show_digits :: "nat \<Rightarrow> nat \<Rightarrow> utext" where
  "show_digits 0 n = []"
| "show_digits (Suc fuel) n =
     (if n < 10 then [48 + n]
      else show_digits fuel (n div 10) @ [48 + n mod 10])"

definition show_int :: "int \<Rightarrow> utext" where
  "show_int i =
     (if i < 0 then 45 # show_digits (Suc (nat (- i))) (nat (- i))
      else show_digits (Suc (nat i)) (nat i))"

fun keep_first :: "'k list \<Rightarrow> ('r \<Rightarrow> 'k) \<Rightarrow> 'r list \<Rightarrow> 'r list" where
  "keep_first seen key [] = []"
| "keep_first seen key (r # rs) =
     (if key r \<in> set seen then keep_first seen key rs
      else r # keep_first (key r # seen) key rs)"

definition scenario_lib :: "int library" where
  "scenario_lib =
     \<lparr>astype_str = (\<lambda>c. case c of
          CStr s \<Rightarrow> s
        | CNum NaN \<Rightarrow> text_of ''nan''
        | CNum (Fin i) \<Rightarrow> show_int i @ text_of ''.0''
        | CInt i \<Rightarrow> show_int i
        | CBool b \<Rightarrow> if b then text_of ''True'' else text_of ''False''),
      to_numeric = (\<lambda>s. case parse_whole s of Some i \<Rightarrow> Fin i | None \<Rightarrow> NaN),
      float_of_str = (\<lambda>s. map_option Fin (parse_whole (text_of s))),
      float_of_int = Some,
      int_of_str = (\<lambda>s. parse_whole (text_of s)),
      int_of_float = Some,
      as_integer = Some,
      json_loads = (\<lambda>s. None),
      series_eq = (\<lambda>cells v. Inl ''unsupported''),
      series_ne = (\<lambda>cells v. Inl ''unsupported''),
      series_isin = (\<lambda>cells vs. Inl ''unsupported''),
      groupby_agg = (\<lambda>t gb agg_map. Inl ''unsupported''),
      drop_duplicates = (\<lambda>t. t\<lparr>rows := keep_first [] (\<lambda>r. map r (names t)) (rows t)\<rparr>),
      sort_values = (\<lambda>t by_col asc. Inl ''unsupported''),
      px_chart = (\<lambda>t c.
        if chart_x c \<in> set (names t)
           \<and> (case chart_y c of Some y \<Rightarrow> y \<in> set (names t) | None \<Rightarrow> True)
           \<and> (case chart_color c of Some y \<Rightarrow> y \<in> set (names t) | None \<Rightarrow> True)
        then None else Some ''not the name of a column'')\<rparr>"

definition discount_row :: "int cell \<Rightarrow> string \<Rightarrow> int cell" where
  "discount_row c = (\<lambda>_. CNum NaN)(''discount'' := c)"

text \<open>Scenario B: a text column \<open>discount\<close> holding \<open>15%\<close> and \<open>5%\<close>.\<close>

definition discount_table :: "int table" where
  "discount_table =
     \<lparr>columns = [(''discount'', ObjectT)],
      rows = [discount_row (CStr (text_of ''15%'')), discount_row (CStr (text_of ''5%''))]\<rparr>"

text \<open>
  A \<open>discount\<close> column as a file may hold it: \<open>15\<close> between a space and a no-break
  space (U+00A0) before its \<open>%\<close>, \<open>5 %\<close> followed by a tab, the text \<open>n/a\<close> and a
  missing value.
\<close>

definition messy_discount_table :: "int table" where
  "messy_discount_table =
     \<lparr>columns = [(''discount'', ObjectT)],
      rows = [discount_row (CStr [32, 49, 53, 160, 37]),
              discount_row (CStr [53, 32, 37, 9]),
              discount_row (CStr (text_of ''n/a'')),
              discount_row (CNum NaN)]\<rparr>"

definition discount_filter :: "string \<Rightarrow> string \<Rightarrow> int filter_spec" where
  "discount_filter op v = \<lparr>f_column = ''discount'', operator = op, f_value = PStr v\<rparr>"

text \<open>
  A text column \<open>country\<close> and a numeric column \<open>population\<close>, three rows, the first
  and the last equal.
\<close>

definition country_row :: "string \<Rightarrow> int \<Rightarrow> string \<Rightarrow> int cell" where
  "country_row c n = (\<lambda>_. CNum NaN)(''country'' := CStr (text_of c), ''population'' := CInt n)"

definition country_table :: "int table" where
  "country_table =
     \<lparr>columns = [(''country'', ObjectT), (''population'', NumericT)],
      rows = [country_row ''Peru'' 33, country_row ''Chile'' 19, country_row ''Peru'' 33]\<rparr>"

text \<open>The same rows with \<open>country\<close> of the dtype \<open>string\<close> instead of \<open>object\<close>.\<close>

definition string_country_table :: "int table" where
  "string_country_table =
     country_table\<lparr>columns := [(''country'', StringT), (''population'', NumericT)]\<rparr>"

text \<open>A plan with every required key, no filter, no metric and no chart.\<close>

definition base_plan :: "int plan" where
  "base_plan =
     \<lparr>analysis_type = Some ''aggregation'', filters = Some [], group_by = Some [],
      metrics = Some [], sort_cfg = Null, visualization = EmptyDict, user_intent = Missing\<rparr>"

definition bar_chart :: "string option \<Rightarrow> string option \<Rightarrow> int pyval \<Rightarrow> int viz" where
  "bar_chart x y n =
     \<lparr>viz_type = Some ''bar'', viz_x = x, viz_y = y, viz_color = None, top_n = n\<rparr>"

text \<open>Scenario E: the metric name \<open>mean\<close> in the y axis, grouped by \<open>region\<close>.\<close>

definition scenario_E :: "int plan" where
  "scenario_E =
     base_plan\<lparr>group_by := Some [''region''],
       visualization := Dict (bar_chart (Some ''region'') (Some ''mean'') PNone)\<rparr>"

text \<open>A distribution plan without metrics whose y axis holds \<open>mean\<close>.\<close>

definition distribution_plan :: "int plan" where
  "distribution_plan =
     base_plan\<lparr>analysis_type := Some ''distribution'',
       visualization := Dict (bar_chart (Some ''a'') (Some ''mean'') PNone)\<rparr>"

text \<open>A plan over a table whose only column is named \<open>count\<close>, charting that column.\<close>

definition count_column_plan :: "int plan" where
  "count_column_plan =
     base_plan\<lparr>visualization := Dict (bar_chart (Some ''count'') (Some ''count'') PNone)\<rparr>"

text \<open>A bar chart of \<open>country\<close> with no y axis and no metric.\<close>

definition no_y_plan :: "int plan" where
  "no_y_plan = base_plan\<lparr>visualization := Dict (bar_chart (Some ''country'') None PNone)\<rparr>"

text \<open>
  The same chart with two metrics: the column of the first, \<open>revenue\<close>, is not in the
  table, the column of the second, \<open>population\<close>, is.
\<close>

definition two_metrics_plan :: "int plan" where
  "two_metrics_plan =
     no_y_plan\<lparr>metrics := Some [\<lparr>m_column = ''revenue'', operation = Some ''sum''\<rparr>,
                                \<lparr>m_column = ''population'', operation = Some ''max''\<rparr>]\<rparr>"

text \<open>A histogram of \<open>population\<close> with no y axis and no metric.\<close>

definition histogram_plan :: "int plan" where
  "histogram_plan =
     base_plan\<lparr>visualization := Dict
       \<lparr>viz_type = Some ''histogram'', viz_x = Some ''population'', viz_y = None,
        viz_color = None, top_n = PNone\<rparr>\<rparr>"

text \<open>The count of \<open>country\<close>, charted with \<open>country\<close> on both axes.\<close>

definition count_plan :: "int plan" where
  "count_plan =
     base_plan\<lparr>metrics := Some [\<lparr>m_column = ''country'', operation = Some ''count''\<rparr>],
       visualization := Dict (bar_chart (Some ''country'') (Some ''country'') PNone)\<rparr>"

text \<open>The count of \<open>population\<close>, with no chart.\<close>

definition count_population_plan :: "int plan" where
  "count_population_plan =
     base_plan\<lparr>metrics := Some [\<lparr>m_column = ''population'', operation = Some ''count''\<rparr>]\<rparr>"

text \<open>
  The population by country as a bar chart, limited to two rows, with the focus given.
\<close>

definition top_two_plan :: "string \<Rightarrow> int plan" where
  "top_two_plan fc =
     base_plan\<lparr>visualization := Dict (bar_chart (Some ''country'') (Some ''population'') (PInt 2)),
       user_intent := Dict \<lparr>focus = Some fc\<rparr>\<rparr>"

text \<open>A plan with a chart-type metric and a statistical one, and one with an unknown operation.\<close>

definition mixed_metrics_plan :: "string \<Rightarrow> int plan" where
  "mixed_metrics_plan op =
     base_plan\<lparr>metrics := Some [\<lparr>m_column = ''sales'', operation = Some ''bar''\<rparr>,
                                \<lparr>m_column = ''sales'', operation = Some op\<rparr>]\<rparr>"

section \<open>Properties stated about plans\<close>

text \<open>The y axis of a plan's chart, \<open>None\<close> when the plan has no chart.\<close>

definition plan_y :: "'n plan \<Rightarrow> string option" where
  "plan_y p = (case visualization p of Dict v \<Rightarrow> viz_y v | _ \<Rightarrow> None)"

text \<open>No metric of the plan is on one of its group-by columns.\<close>

definition metrics_off_keys :: "'n plan \<Rightarrow> bool" where
  "metrics_off_keys p \<longleftrightarrow> set (map m_column (plan_metrics p)) \<inter> set (plan_group_by p) = {}"

definition chart_op :: "metric \<Rightarrow> bool" where
  "chart_op m = in_names (operation m) INVALID_METRIC_OPERATIONS"

definition stat_op :: "metric \<Rightarrow> bool" where
  "stat_op m = in_names (operation m) ALLOWED_METRICS"

section \<open>Lemmas about the validator\<close>

lemma allowed_not_invalid:
  "in_names v ALLOWED_METRICS \<Longrightarrow> \<not> in_names v INVALID_METRIC_OPERATIONS"
  by (auto simp: in_names_def ALLOWED_METRICS_def INVALID_METRIC_OPERATIONS_def split: option.splits)

lemma clean_metrics_acc:
  "clean_metrics acc ms cols =
     (case clean_metrics [] ms cols of Inl e \<Rightarrow> Inl e | Inr c \<Rightarrow> Inr (acc @ c))"
proof (induction ms arbitrary: acc)
  case Nil
  show ?case by simp
next
  case (Cons m ms)
  have a: "clean_metrics (acc @ [m]) ms cols =
     (case clean_metrics [] ms cols of Inl e \<Rightarrow> Inl e | Inr c \<Rightarrow> Inr ((acc @ [m]) @ c))"
    by (rule Cons.IH)
  have b: "clean_metrics [m] ms cols =
     (case clean_metrics [] ms cols of Inl e \<Rightarrow> Inl e | Inr c \<Rightarrow> Inr ([m] @ c))"
    by (rule Cons.IH)
  show ?case
    using Cons.IH [of acc] a b by (simp split: sum.splits)
qed

lemma clean_metrics_filter:
  "clean_metrics acc ms cols =
     clean_metrics acc (filter (\<lambda>m. \<not> in_names (operation m) INVALID_METRIC_OPERATIONS) ms) cols"
  by (induction ms arbitrary: acc) simp_all

lemma clean_metrics_Inr:
  "clean_metrics acc ms cols = Inr c \<Longrightarrow>
     c = acc @ filter (\<lambda>m. \<not> in_names (operation m) INVALID_METRIC_OPERATIONS) ms \<and>
     (\<forall>m \<in> set ms. \<not> in_names (operation m) INVALID_METRIC_OPERATIONS \<longrightarrow>
        in_names (operation m) ALLOWED_METRICS \<and> m_column m \<in> set cols)"
proof (induction ms arbitrary: acc)
  case Nil
  then show ?case by simp
next
  case (Cons m ms)
  show ?case
  proof (cases "in_names (operation m) INVALID_METRIC_OPERATIONS")
    case True
    with Cons.prems have "clean_metrics acc ms cols = Inr c" by simp
    from Cons.IH [OF this] True show ?thesis by simp
  next
    case False
    with Cons.prems have ok: "in_names (operation m) ALLOWED_METRICS" "m_column m \<in> set cols"
      and r: "clean_metrics (acc @ [m]) ms cols = Inr c"
      by (auto split: if_splits)
    from Cons.IH [OF r] False ok show ?thesis by simp
  qed
qed

lemma clean_metrics_clean:
  "\<forall>m \<in> set ms. in_names (operation m) ALLOWED_METRICS \<and> m_column m \<in> set cols \<Longrightarrow>
     clean_metrics acc ms cols = Inr (acc @ ms)"
  by (induction ms arbitrary: acc) (auto simp: allowed_not_invalid)

lemma clean_metrics_bad_op:
  assumes "\<forall>m \<in> set pre. in_names (operation m) INVALID_METRIC_OPERATIONS \<or>
             (in_names (operation m) ALLOWED_METRICS \<and> m_column m \<in> set cols)"
      and "\<not> in_names (operation m) INVALID_METRIC_OPERATIONS"
      and "\<not> in_names (operation m) ALLOWED_METRICS"
  shows "clean_metrics acc (pre @ m # post) cols = Inl (InvalidMetricOperation (operation m))"
  using assms by (induction pre arbitrary: acc) auto

lemma clean_metrics_fails:
  assumes "m \<in> set ms"
      and "\<not> in_names (operation m) INVALID_METRIC_OPERATIONS"
      and "\<not> in_names (operation m) ALLOWED_METRICS"
  shows "\<exists>e. clean_metrics acc ms cols = Inl e"
  using assms by (induction ms arbitrary: acc) auto


lemma validate_viz_InrD:
  assumes "validate_viz at gb cleaned cols v p = Inr p'"
  obtains t ms2 v2 where "viz_type v = Some t" "t \<in> ALLOWED_VIZ_TYPES"
    "auto_fix gb cols cleaned (null_strings v) = Inr (ms2, v2)"
    "check_viz at t cols v2 = None"
    "p' = p\<lparr>metrics := Some ms2, visualization := Dict v2\<rparr>"
  using assms
  by (auto simp: validate_viz_def Let_def null_strings_def split: option.splits if_splits sum.splits)

lemma validate_body_InrD:
  assumes "validate_body at fs gb ms p cols = Inr p'"
  obtains cleaned where "at \<in> ALLOWED_ANALYSIS_TYPES" "check_filters fs cols = None"
    "check_group_by gb cols = None" "clean_metrics [] ms cols = Inr cleaned"
    "at \<in> {''distribution'', ''correlation''} \<longrightarrow> cleaned = []"
    "case visualization p of
       Dict v \<Rightarrow> validate_viz at gb cleaned cols v p = Inr p'
     | _ \<Rightarrow> p' = p\<lparr>metrics := Some cleaned\<rparr>"
  using assms unfolding validate_body_def
  by (auto split: option.splits if_splits sum.splits jfield.splits)

lemma validate_plan_InrD:
  assumes "validate_plan p cols = Inr p'"
  obtains at fs gb ms where "analysis_type p = Some at" "filters p = Some fs"
    "group_by p = Some gb" "metrics p = Some ms" "sort_cfg p \<noteq> Missing"
    "visualization p \<noteq> Missing" "validate_body at fs gb ms p cols = Inr p'"
  using assms unfolding validate_plan_def
  by (auto split: option.splits if_splits)


lemma null_str_idem: "null_str (null_str v) = null_str v"
  by (simp add: null_str_def)

lemma null_val_idem: "null_val (null_val v) = null_val v"
  by (simp add: null_val_def)

lemma null_strings_idem: "null_strings (null_strings v) = null_strings v"
  by (simp add: null_strings_def null_str_idem null_val_idem)

lemma null_strings_type: "viz_type (null_strings v) = viz_type v"
  by (simp add: null_strings_def)

lemma check_group_by_set: "check_group_by gb cols = None \<Longrightarrow> set gb \<subseteq> set cols"
  by (induction gb) (auto split: if_splits)

lemma target_col_in:
  "target_col gb cols = Inr t \<Longrightarrow> check_group_by gb cols = None \<Longrightarrow> t \<in> set cols"
  by (auto simp: target_col_def split: list.splits if_splits)

lemma null_strings_fixed_y:
  "\<not> in_names (Some t) {''null'', ''NULL''} \<Longrightarrow>
     null_strings ((null_strings v)\<lparr>viz_y := Some t\<rparr>) = (null_strings v)\<lparr>viz_y := Some t\<rparr>"
  by (simp add: null_strings_def null_str_idem null_val_idem in_names_def null_str_def)

lemma revalidate_viz:
  assumes fx: "auto_fix gb cols cleaned (null_strings v) = Inr (ms2, v2)"
      and cl: "clean_metrics [] ms cols = Inr cleaned"
      and gb: "check_group_by gb cols = None"
      and y: "\<not> in_names (viz_y v2) (ALLOWED_METRICS \<union> {''null'', ''NULL''})"
  shows "clean_metrics [] ms2 cols = Inr ms2 \<and> null_strings v2 = v2 \<and>
         auto_fix gb cols ms2 v2 = Inr (ms2, v2)"
proof -
  from clean_metrics_Inr [OF cl]
  have cleaned_ok: "\<forall>m \<in> set cleaned. in_names (operation m) ALLOWED_METRICS \<and> m_column m \<in> set cols"
    by auto
  from y have nofire: "\<not> in_names (viz_y v2) ALLOWED_METRICS"
    and nonull: "\<not> in_names (viz_y v2) {''null'', ''NULL''}"
    by (auto simp: in_names_def split: option.splits)
  show ?thesis
  proof (cases "in_names (viz_y (null_strings v)) ALLOWED_METRICS")
    case False
    with fx have eq: "ms2 = cleaned" "v2 = null_strings v"
      by (simp_all add: auto_fix_def)
    from cleaned_ok have "clean_metrics [] cleaned cols = Inr cleaned"
      using clean_metrics_clean [of cleaned cols "[]"] by simp
    with eq False show ?thesis
      by (simp add: null_strings_idem auto_fix_def)
  next
    case True
    with fx obtain t where t: "target_col gb cols = Inr t"
      and eq: "ms2 = cleaned @ [\<lparr>m_column = t, operation = viz_y (null_strings v)\<rparr>]"
              "v2 = (null_strings v)\<lparr>viz_y := Some t\<rparr>"
      by (auto simp: auto_fix_def split: sum.splits)
    from target_col_in [OF t gb] have tin: "t \<in> set cols" .
    have "\<forall>m \<in> set ms2. in_names (operation m) ALLOWED_METRICS \<and> m_column m \<in> set cols"
      using cleaned_ok True tin eq(1) by auto
    then have c: "clean_metrics [] ms2 cols = Inr ms2"
      using clean_metrics_clean [of ms2 cols "[]"] by simp
    from nonull eq(2) have n: "null_strings v2 = v2"
      using null_strings_fixed_y [of t v] by simp
    from nofire have a: "auto_fix gb cols ms2 v2 = Inr (ms2, v2)"
      by (simp add: auto_fix_def)
    from c n a show ?thesis by simp
  qed
qed


lemma validate_plan_normalized:
  assumes "validate_plan p cols = Inr p'"
  shows "group_by p' = group_by p \<and> analysis_type p' = analysis_type p \<and>
         (\<forall>m \<in> set (plan_metrics p'). stat_op m \<and> m_column m \<in> set cols) \<and>
         set (plan_group_by p') \<subseteq> set cols \<and>
         (\<exists>ms extra. metrics p = Some ms \<and>
            metrics p' = Some (filter (\<lambda>m. \<not> chart_op m) ms @ extra))"
proof -
  from assms obtain at fs gb ms where keys: "analysis_type p = Some at" "filters p = Some fs"
    "group_by p = Some gb" "metrics p = Some ms"
    and body: "validate_body at fs gb ms p cols = Inr p'"
    by (rule validate_plan_InrD)
  from body obtain cleaned where b: "check_group_by gb cols = None"
    "clean_metrics [] ms cols = Inr cleaned"
    and vz: "case visualization p of
       Dict v \<Rightarrow> validate_viz at gb cleaned cols v p = Inr p'
     | _ \<Rightarrow> p' = p\<lparr>metrics := Some cleaned\<rparr>"
    by (rule validate_body_InrD)
  from clean_metrics_Inr [OF b(2)]
  have cl: "cleaned = filter (\<lambda>m. \<not> chart_op m) ms"
    and cleaned_ok: "\<forall>m \<in> set cleaned. stat_op m \<and> m_column m \<in> set cols"
    by (auto simp: chart_op_def stat_op_def)
  have gbs: "set gb \<subseteq> set cols" using b(1) by (rule check_group_by_set)
  show ?thesis
  proof (cases "visualization p")
    case (Dict v)
    with vz have "validate_viz at gb cleaned cols v p = Inr p'" by simp
    then obtain t ms2 v2 where v: "auto_fix gb cols cleaned (null_strings v) = Inr (ms2, v2)"
      and p': "p' = p\<lparr>metrics := Some ms2, visualization := Dict v2\<rparr>"
      by (rule validate_viz_InrD)
    have "\<exists>extra. ms2 = cleaned @ extra \<and> (\<forall>m \<in> set extra. stat_op m \<and> m_column m \<in> set cols)"
    proof (cases "in_names (viz_y (null_strings v)) ALLOWED_METRICS")
      case False
      with v show ?thesis by (simp add: auto_fix_def)
    next
      case True
      with v obtain t where t: "target_col gb cols = Inr t"
        and eq: "ms2 = cleaned @ [\<lparr>m_column = t, operation = viz_y (null_strings v)\<rparr>]"
        by (auto simp: auto_fix_def split: sum.splits)
      from target_col_in [OF t b(1)] True eq show ?thesis
        by (simp add: stat_op_def)
    qed
    then obtain extra where ex: "ms2 = cleaned @ extra"
      "\<forall>m \<in> set extra. stat_op m \<and> m_column m \<in> set cols" by blast
    with cleaned_ok have "\<forall>m \<in> set ms2. stat_op m \<and> m_column m \<in> set cols" by auto
    with p' keys gbs ex(1) cl show ?thesis
      by (simp add: plan_metrics_def plan_group_by_def)
  next
    case Null
    with vz have "p' = p\<lparr>metrics := Some cleaned\<rparr>" by simp
    with keys gbs cleaned_ok cl show ?thesis
      by (simp add: plan_metrics_def plan_group_by_def)
  next
    case EmptyDict
    with vz have "p' = p\<lparr>metrics := Some cleaned\<rparr>" by simp
    with keys gbs cleaned_ok cl show ?thesis
      by (simp add: plan_metrics_def plan_group_by_def)
  next
    case Missing
    with vz have "p' = p\<lparr>metrics := Some cleaned\<rparr>" by simp
    with keys gbs cleaned_ok cl show ?thesis
      by (simp add: plan_metrics_def plan_group_by_def)
  qed
qed

lemma validate_plan_top_n:
  assumes "validate_plan p cols = Inr p'" and "visualization p' = Dict v"
  shows "top_n_ok (top_n v)"
proof -
  from assms(1) obtain at fs gb ms where keys: "metrics p = Some ms"
    and body: "validate_body at fs gb ms p cols = Inr p'"
    by (rule validate_plan_InrD)
  from body obtain cleaned where
    vz: "case visualization p of
       Dict v \<Rightarrow> validate_viz at gb cleaned cols v p = Inr p'
     | _ \<Rightarrow> p' = p\<lparr>metrics := Some cleaned\<rparr>"
    by (rule validate_body_InrD)
  show ?thesis
  proof (cases "visualization p")
    case (Dict v0)
    with vz have "validate_viz at gb cleaned cols v0 p = Inr p'" by simp
    then obtain t ms2 v2 where c: "check_viz at t cols v2 = None"
      and p': "p' = p\<lparr>metrics := Some ms2, visualization := Dict v2\<rparr>"
      by (rule validate_viz_InrD)
    from p' assms(2) have "v2 = v" by simp
    with c show ?thesis by (auto simp: check_viz_def split: if_splits)
  next
    case Null
    with vz assms(2) show ?thesis by simp
  next
    case EmptyDict
    with vz assms(2) show ?thesis by simp
  next
    case Missing
    with vz assms(2) show ?thesis by simp
  qed
qed

lemmas validator_defs =
  validate_plan_def validate_body_def validate_viz_def check_viz_def auto_fix_def
  target_col_def null_strings_def null_str_def null_val_def top_n_ok_def in_names_def
  ALLOWED_ANALYSIS_TYPES_def ALLOWED_METRICS_def ALLOWED_VIZ_TYPES_def
  INVALID_METRIC_OPERATIONS_def ALLOWED_OPERATORS_def

lemmas scenario_defs =
  base_plan_def bar_chart_def scenario_E_def distribution_plan_def count_column_plan_def
  no_y_plan_def two_metrics_plan_def histogram_plan_def count_plan_def
  count_population_plan_def top_two_plan_def mixed_metrics_plan_def

lemma build_agg_map_keys:
  "build_agg_map acc ms gb = Inr agg_map \<Longrightarrow>
     fst ` set agg_map \<subseteq> fst ` set acc \<union> (m_column ` set ms - set gb)"
proof (induction ms arbitrary: acc)
  case Nil
  then show ?case by simp
next
  case (Cons m ms)
  from Cons.prems obtain op where op: "operation m = Some op"
    by (auto split: option.splits)
  show ?case
  proof (cases "m_column m \<in> set gb")
    case True
    with Cons.prems op have "build_agg_map acc ms gb = Inr agg_map" by simp
    from Cons.IH [OF this] show ?thesis by auto
  next
    case False
    with Cons.prems op
    have "build_agg_map (AList.update (m_column m) op acc) ms gb = Inr agg_map" by simp
    from Cons.IH [OF this]
    have "fst ` set agg_map \<subseteq>
            fst ` set (AList.update (m_column m) op acc) \<union> (m_column ` set ms - set gb)" .
    moreover have "fst ` set (AList.update (m_column m) op acc) = insert (m_column m) (fst ` set acc)"
      using dom_update [of "m_column m" op acc] by simp
    ultimately show ?thesis using False by auto
  qed
qed

lemma build_agg_map_total:
  "\<forall>m \<in> set ms. operation m \<noteq> None \<Longrightarrow> \<exists>agg_map. build_agg_map acc ms gb = Inr agg_map"
  by (induction ms arbitrary: acc) auto

lemma validate_plan_early:
  assumes "analysis_type p = Some at" "at \<in> ALLOWED_ANALYSIS_TYPES"
      and "filters p = Some fs" "check_filters fs cols = None"
      and "group_by p = Some gb" "check_group_by gb cols = None"
      and "metrics p = Some ms" "sort_cfg p \<noteq> Missing" "visualization p \<noteq> Missing"
      and "clean_metrics [] ms cols = Inl e"
  shows "validate_plan p cols = Inl e"
  using assms by (simp add: validate_plan_def validate_body_def)

lemma validate_plan_clean_fails:
  assumes "metrics p = Some ms" and "clean_metrics [] ms cols = Inl e"
  shows "\<exists>e'. validate_plan p cols = Inl e'"
proof (cases "validate_plan p cols")
  case (Inl e')
  then show ?thesis by blast
next
  case (Inr p')
  then obtain at fs gb ms' where k: "metrics p = Some ms'"
    and body: "validate_body at fs gb ms' p cols = Inr p'"
    by (rule validate_plan_InrD)
  from body obtain cleaned where "clean_metrics [] ms' cols = Inr cleaned"
    by (rule validate_body_InrD)
  with k assms show ?thesis by simp
qed

section \<open>The validator's claims\<close>

text \<open>
  C1, the claim as stated fails: on Scenario E the validator accepts the plan and the
  metric it appends is on the group-by column \<open>region\<close>.
\<close>

theorem scenario_E_metric_on_group_key:
  "validate_plan scenario_E [''region'', ''sales''] =
     Inr (scenario_E\<lparr>metrics := Some [\<lparr>m_column = ''region'', operation = Some ''mean''\<rparr>],
            visualization := Dict (bar_chart (Some ''region'') (Some ''region'') PNone)\<rparr>)
   \<and> \<not> metrics_off_keys
        (scenario_E\<lparr>metrics := Some [\<lparr>m_column = ''region'', operation = Some ''mean''\<rparr>],
            visualization := Dict (bar_chart (Some ''region'') (Some ''region'') PNone)\<rparr>)"
  by (simp add: validator_defs scenario_defs metrics_off_keys_def plan_metrics_def
      plan_group_by_def)

text \<open>
  C1, amended: the validator does not keep metrics off the group-by columns (its repair
  of the y axis appends one on the first group-by column). What holds for every plan it
  accepts is the invariant one stage later: the aggregation map \<open>execute_plan\<close> builds
  from the normalized plan is built without error, none of its keys is a group-by
  column, and each key is a column of the table.
\<close>

theorem agg_map_off_group_keys:
  assumes "validate_plan p cols = Inr p'"
  shows "\<exists>agg_map. build_agg_map [] (plan_metrics p') (plan_group_by p') = Inr agg_map
           \<and> fst ` set agg_map \<inter> set (plan_group_by p') = {}
           \<and> fst ` set agg_map \<subseteq> set cols"
proof -
  from validate_plan_normalized [OF assms]
  have ok: "\<forall>m \<in> set (plan_metrics p'). stat_op m \<and> m_column m \<in> set cols" by simp
  then have "\<forall>m \<in> set (plan_metrics p'). operation m \<noteq> None"
    by (fastforce simp: stat_op_def in_names_def split: option.splits)
  from build_agg_map_total [OF this]
  obtain agg_map where a: "build_agg_map [] (plan_metrics p') (plan_group_by p') = Inr agg_map"
    by blast
  from build_agg_map_keys [OF a]
  have "fst ` set agg_map \<subseteq> m_column ` set (plan_metrics p') - set (plan_group_by p')" by simp
  with ok a show ?thesis by auto
qed

text \<open>Scenario E again: the plan is accepted and its aggregation map is empty.\<close>

theorem agg_map_off_group_keys_witness:
  "validate_plan scenario_E [''region'', ''sales''] =
     Inr (scenario_E\<lparr>metrics := Some [\<lparr>m_column = ''region'', operation = Some ''mean''\<rparr>],
            visualization := Dict (bar_chart (Some ''region'') (Some ''region'') PNone)\<rparr>)
   \<and> build_agg_map [] [\<lparr>m_column = ''region'', operation = Some ''mean''\<rparr>] [''region''] = Inr []"
proof -
  have v: "validate_plan scenario_E [''region'', ''sales''] =
     Inr (scenario_E\<lparr>metrics := Some [\<lparr>m_column = ''region'', operation = Some ''mean''\<rparr>],
            visualization := Dict (bar_chart (Some ''region'') (Some ''region'') PNone)\<rparr>)"
    by (simp add: validator_defs scenario_defs)
  from agg_map_off_group_keys [OF v] v show ?thesis
    by (simp add: plan_metrics_def plan_group_by_def scenario_defs)
qed

text \<open>
  C2, the code at the failing input: a \<open>distribution\<close> plan without metrics whose y axis
  holds \<open>mean\<close> is accepted, and the normalized plan has one metric. The check that
  distribution and correlation plans have no metrics runs before the repair of the y
  axis appends one.
\<close>

theorem distribution_plan_accepted_with_metric:
  "validate_plan distribution_plan [''a''] =
     Inr (distribution_plan\<lparr>metrics := Some [\<lparr>m_column = ''a'', operation = Some ''mean''\<rparr>],
            visualization := Dict (bar_chart (Some ''a'') (Some ''a'') PNone)\<rparr>)"
  by (simp add: validator_defs scenario_defs)

text \<open>
  C3, the claim as stated fails: over a table whose column is named \<open>count\<close>, the
  accepted plan has the y axis \<open>count\<close>, which is a metric name, and validating the
  normalized plan again appends a second metric.
\<close>

theorem revalidation_changes_plan:
  "validate_plan count_column_plan [''count''] =
     Inr (count_column_plan\<lparr>metrics := Some [\<lparr>m_column = ''count'', operation = Some ''count''\<rparr>]\<rparr>)
   \<and> validate_plan
        (count_column_plan\<lparr>metrics := Some [\<lparr>m_column = ''count'', operation = Some ''count''\<rparr>]\<rparr>)
        [''count''] =
     Inr (count_column_plan\<lparr>metrics := Some [\<lparr>m_column = ''count'', operation = Some ''count''\<rparr>,
                                              \<lparr>m_column = ''count'', operation = Some ''count''\<rparr>]\<rparr>)"
  by (simp add: validator_defs scenario_defs)

lemma revalidation_succeeds:
  assumes ok: "validate_plan p cols = Inr p'"
      and y: "\<not> in_names (plan_y p') (ALLOWED_METRICS \<union> {''null'', ''NULL''})"
      and atc: "analysis_type p' \<in> {Some ''distribution'', Some ''correlation''} \<Longrightarrow> metrics p' = Some []"
  shows "validate_plan p' cols = Inr p'"
proof -
  from ok obtain at fs gb ms where keys: "analysis_type p = Some at" "filters p = Some fs"
    "group_by p = Some gb" "metrics p = Some ms" "sort_cfg p \<noteq> Missing"
    "visualization p \<noteq> Missing" and body: "validate_body at fs gb ms p cols = Inr p'"
    by (rule validate_plan_InrD)
  from body obtain cleaned where b: "at \<in> ALLOWED_ANALYSIS_TYPES" "check_filters fs cols = None"
    "check_group_by gb cols = None" "clean_metrics [] ms cols = Inr cleaned"
    and vz: "case visualization p of
       Dict v \<Rightarrow> validate_viz at gb cleaned cols v p = Inr p'
     | _ \<Rightarrow> p' = p\<lparr>metrics := Some cleaned\<rparr>"
    by (rule validate_body_InrD)
  from clean_metrics_Inr [OF b(4)]
  have cleaned_ok: "\<forall>m \<in> set cleaned. in_names (operation m) ALLOWED_METRICS \<and> m_column m \<in> set cols"
    by auto
  show ?thesis
  proof (cases "visualization p")
    case (Dict v)
    with vz have "validate_viz at gb cleaned cols v p = Inr p'" by simp
    then obtain t ms2 v2 where v: "viz_type v = Some t" "t \<in> ALLOWED_VIZ_TYPES"
      "auto_fix gb cols cleaned (null_strings v) = Inr (ms2, v2)"
      "check_viz at t cols v2 = None"
      and p': "p' = p\<lparr>metrics := Some ms2, visualization := Dict v2\<rparr>"
      by (rule validate_viz_InrD)
    from y p' have y2: "\<not> in_names (viz_y v2) (ALLOWED_METRICS \<union> {''null'', ''NULL''})"
      by (simp add: plan_y_def)
    from revalidate_viz [OF v(3) b(4) b(3) y2]
    have r: "clean_metrics [] ms2 cols = Inr ms2" "null_strings v2 = v2"
      "auto_fix gb cols ms2 v2 = Inr (ms2, v2)" by simp_all
    have t2: "viz_type v2 = Some t"
      using v(1,3) by (auto simp: auto_fix_def null_strings_type split: if_splits sum.splits)
    from atc p' keys have e: "at \<in> {''distribution'', ''correlation''} \<longrightarrow> ms2 = []"
      by auto
    have vv: "validate_viz at gb ms2 cols v2 p' = Inr p'"
      using r t2 v(2,4) p' by (simp add: validate_viz_def)
    have "validate_body at fs gb ms2 p' cols = Inr p'"
      using b r(1) e vv p' by (auto simp: validate_body_def)
    then show ?thesis
      using keys p' by (simp add: validate_plan_def)
  next
    case Null
    with vz have p': "p' = p\<lparr>metrics := Some cleaned\<rparr>" by simp
    from cleaned_ok have c: "clean_metrics [] cleaned cols = Inr cleaned"
      using clean_metrics_clean [of cleaned cols "[]"] by simp
    from atc p' keys have e: "at \<in> {''distribution'', ''correlation''} \<longrightarrow> cleaned = []"
      by auto
    have "validate_body at fs gb cleaned p' cols = Inr p'"
      using b c e p' Null by (auto simp: validate_body_def)
    then show ?thesis
      using keys p' Null by (simp add: validate_plan_def)
  next
    case EmptyDict
    with vz have p': "p' = p\<lparr>metrics := Some cleaned\<rparr>" by simp
    from cleaned_ok have c: "clean_metrics [] cleaned cols = Inr cleaned"
      using clean_metrics_clean [of cleaned cols "[]"] by simp
    from atc p' keys have e: "at \<in> {''distribution'', ''correlation''} \<longrightarrow> cleaned = []"
      by auto
    have "validate_body at fs gb cleaned p' cols = Inr p'"
      using b c e p' EmptyDict by (auto simp: validate_body_def)
    then show ?thesis
      using keys p' EmptyDict by (simp add: validate_plan_def)
  next
    case Missing
    with keys show ?thesis by simp
  qed
qed


lemma revalidation_provisos:
  assumes ok: "validate_plan p cols = Inr p'"
      and again: "validate_plan p' cols = Inr p'"
  shows "\<not> in_names (plan_y p') (ALLOWED_METRICS \<union> {''null'', ''NULL''})
    \<and> (analysis_type p' \<in> {Some ''distribution'', Some ''correlation''} \<longrightarrow> metrics p' = Some [])"
proof -
  from again obtain at fs gb ms where keys: "analysis_type p' = Some at" "metrics p' = Some ms"
    and body: "validate_body at fs gb ms p' cols = Inr p'"
    by (rule validate_plan_InrD)
  from body obtain cleaned where cl: "clean_metrics [] ms cols = Inr cleaned"
    and atc: "at \<in> {''distribution'', ''correlation''} \<longrightarrow> cleaned = []"
    and vz: "case visualization p' of
       Dict v \<Rightarrow> validate_viz at gb cleaned cols v p' = Inr p'
     | _ \<Rightarrow> p' = p'\<lparr>metrics := Some cleaned\<rparr>"
    by (rule validate_body_InrD)
  from validate_plan_normalized [OF ok] keys
  have "\<forall>m \<in> set ms. in_names (operation m) ALLOWED_METRICS \<and> m_column m \<in> set cols"
    by (simp add: plan_metrics_def stat_op_def)
  then have "clean_metrics [] ms cols = Inr ms"
    using clean_metrics_clean [of ms cols "[]"] by simp
  with cl have same: "cleaned = ms" by simp
  from atc same keys
  have second: "analysis_type p' \<in> {Some ''distribution'', Some ''correlation''} \<longrightarrow> metrics p' = Some []"
    by auto
  have first: "\<not> in_names (plan_y p') (ALLOWED_METRICS \<union> {''null'', ''NULL''})"
  proof (cases "visualization p'")
    case (Dict v)
    with vz have "validate_viz at gb cleaned cols v p' = Inr p'" by simp
    then obtain t ms3 v3 where fx: "auto_fix gb cols cleaned (null_strings v) = Inr (ms3, v3)"
      and p': "p' = p'\<lparr>metrics := Some ms3, visualization := Dict v3\<rparr>"
      by (rule validate_viz_InrD)
    from arg_cong [OF p', of metrics] keys have e1: "ms3 = ms" by simp
    from arg_cong [OF p', of visualization] Dict have e2: "v3 = v" by simp
    note e = e1 e2
    have nofire: "\<not> in_names (viz_y (null_strings v)) ALLOWED_METRICS"
    proof
      assume "in_names (viz_y (null_strings v)) ALLOWED_METRICS"
      with fx e same have "length ms = Suc (length ms)"
        by (auto simp: auto_fix_def split: sum.splits)
      then show False by simp
    qed
    with fx e have fixed: "null_strings v = v" by (simp add: auto_fix_def)
    from arg_cong [OF fixed, of viz_y] have "null_str (viz_y v) = viz_y v"
      by (simp add: null_strings_def)
    then have "\<not> in_names (viz_y v) {''null'', ''NULL''}"
      by (auto simp: null_str_def in_names_def split: if_splits option.splits)
    with nofire fixed Dict show ?thesis
      by (auto simp: plan_y_def in_names_def split: option.splits)
  next
    case Null
    then show ?thesis by (simp add: plan_y_def in_names_def)
  next
    case EmptyDict
    then show ?thesis by (simp add: plan_y_def in_names_def)
  next
    case Missing
    then show ?thesis by (simp add: plan_y_def in_names_def)
  qed
  from first second show ?thesis by blast
qed


text \<open>
  C3, amended: validating an accepted, normalized plan again with the same columns
  succeeds and returns the same plan exactly when the normalized y axis is neither the
  name of a statistical metric nor the string \<open>null\<close> or \<open>NULL\<close> (the repair can leave
  such a y axis when a column has that name), and a \<open>distribution\<close> or \<open>correlation\<close>
  plan has no metrics after normalization.
\<close>

theorem revalidation_idempotent:
  assumes "validate_plan p cols = Inr p'"
  shows "validate_plan p' cols = Inr p' \<longleftrightarrow>
     \<not> in_names (plan_y p') (ALLOWED_METRICS \<union> {''null'', ''NULL''})
     \<and> (analysis_type p' \<in> {Some ''distribution'', Some ''correlation''} \<longrightarrow> metrics p' = Some [])"
proof
  assume "validate_plan p' cols = Inr p'"
  with assms show "\<not> in_names (plan_y p') (ALLOWED_METRICS \<union> {''null'', ''NULL''})
     \<and> (analysis_type p' \<in> {Some ''distribution'', Some ''correlation''} \<longrightarrow> metrics p' = Some [])"
    by (rule revalidation_provisos)
next
  assume "\<not> in_names (plan_y p') (ALLOWED_METRICS \<union> {''null'', ''NULL''})
     \<and> (analysis_type p' \<in> {Some ''distribution'', Some ''correlation''} \<longrightarrow> metrics p' = Some [])"
  with assms show "validate_plan p' cols = Inr p'"
    using revalidation_succeeds [of p cols p'] by blast
qed

text \<open>Scenario E: the normalized plan validates to itself.\<close>

theorem revalidation_idempotent_witness:
  "validate_plan scenario_E [''region'', ''sales''] =
     Inr (scenario_E\<lparr>metrics := Some [\<lparr>m_column = ''region'', operation = Some ''mean''\<rparr>],
            visualization := Dict (bar_chart (Some ''region'') (Some ''region'') PNone)\<rparr>)
   \<and> validate_plan
       (scenario_E\<lparr>metrics := Some [\<lparr>m_column = ''region'', operation = Some ''mean''\<rparr>],
            visualization := Dict (bar_chart (Some ''region'') (Some ''region'') PNone)\<rparr>)
       [''region'', ''sales''] =
     Inr (scenario_E\<lparr>metrics := Some [\<lparr>m_column = ''region'', operation = Some ''mean''\<rparr>],
            visualization := Dict (bar_chart (Some ''region'') (Some ''region'') PNone)\<rparr>)"
proof -
  let ?p' = "scenario_E\<lparr>metrics := Some [\<lparr>m_column = ''region'', operation = Some ''mean''\<rparr>],
            visualization := Dict (bar_chart (Some ''region'') (Some ''region'') PNone)\<rparr>"
  have v: "validate_plan scenario_E [''region'', ''sales''] = Inr ?p'"
    by (simp add: validator_defs scenario_defs)
  have y: "\<not> in_names (plan_y ?p') (ALLOWED_METRICS \<union> {''null'', ''NULL''})"
    by (simp add: plan_y_def scenario_defs in_names_def ALLOWED_METRICS_def)
  have a: "analysis_type ?p' \<in> {Some ''distribution'', Some ''correlation''} \<longrightarrow> metrics ?p' = Some []"
    by (simp add: scenario_defs)
  from revalidation_idempotent [OF v] y a have "validate_plan ?p' [''region'', ''sales''] = Inr ?p'"
    by blast
  with v show ?thesis by simp
qed

text \<open>
  C6: the cleaning loop treats the metrics list as if its chart-type entries (\<open>bar\<close>,
  \<open>line\<close>, \<open>scatter\<close>, \<open>histogram\<close>) were not there, so they raise nothing; the
  metrics of an accepted plan are the other entries in their order, followed by what
  the repair of the y axis appends, and none of them has a chart-type operation. A
  metric whose operation is neither a chart type nor a statistical metric makes
  \<open>validate_plan\<close> fail, and the failure is the invalid-metric-operation error of that
  metric when the checks before it pass (the validator raises the first violation).
\<close>

theorem chart_type_metrics_dropped:
  assumes "metrics p = Some ms"
  shows "clean_metrics [] ms cols = clean_metrics [] (filter (\<lambda>m. \<not> chart_op m) ms) cols
    \<and> (\<forall>p'. validate_plan p cols = Inr p' \<longrightarrow>
         (\<exists>extra. metrics p' = Some (filter (\<lambda>m. \<not> chart_op m) ms @ extra))
         \<and> (\<forall>m \<in> set (plan_metrics p'). \<not> chart_op m))
    \<and> ((\<exists>m \<in> set ms. \<not> chart_op m \<and> \<not> stat_op m) \<longrightarrow> (\<exists>e. validate_plan p cols = Inl e))
    \<and> (\<forall>pre m post at fs gb.
          ms = pre @ m # post \<and> \<not> chart_op m \<and> \<not> stat_op m
          \<and> (\<forall>m' \<in> set pre. chart_op m' \<or> (stat_op m' \<and> m_column m' \<in> set cols))
          \<and> analysis_type p = Some at \<and> at \<in> ALLOWED_ANALYSIS_TYPES
          \<and> filters p = Some fs \<and> check_filters fs cols = None
          \<and> group_by p = Some gb \<and> check_group_by gb cols = None
          \<and> sort_cfg p \<noteq> Missing \<and> visualization p \<noteq> Missing
          \<longrightarrow> validate_plan p cols = Inl (InvalidMetricOperation (operation m)))"
proof (intro conjI allI impI)
  show "clean_metrics [] ms cols = clean_metrics [] (filter (\<lambda>m. \<not> chart_op m) ms) cols"
    unfolding chart_op_def by (rule clean_metrics_filter)
next
  fix p' assume v: "validate_plan p cols = Inr p'"
  from validate_plan_normalized [OF v] assms
  show "\<exists>extra. metrics p' = Some (filter (\<lambda>m. \<not> chart_op m) ms @ extra)"
    by auto
  from validate_plan_normalized [OF v]
  have "\<forall>m \<in> set (plan_metrics p'). stat_op m" by simp
  then show "\<forall>m \<in> set (plan_metrics p'). \<not> chart_op m"
    using allowed_not_invalid by (auto simp: stat_op_def chart_op_def)
next
  assume "\<exists>m \<in> set ms. \<not> chart_op m \<and> \<not> stat_op m"
  then obtain m where "m \<in> set ms" "\<not> chart_op m" "\<not> stat_op m" by blast
  then have "\<exists>e. clean_metrics [] ms cols = Inl e"
    unfolding chart_op_def stat_op_def by (rule clean_metrics_fails)
  with assms show "\<exists>e. validate_plan p cols = Inl e"
    using validate_plan_clean_fails by blast
next
  fix pre m post at fs gb
  assume h: "ms = pre @ m # post \<and> \<not> chart_op m \<and> \<not> stat_op m
          \<and> (\<forall>m' \<in> set pre. chart_op m' \<or> (stat_op m' \<and> m_column m' \<in> set cols))
          \<and> analysis_type p = Some at \<and> at \<in> ALLOWED_ANALYSIS_TYPES
          \<and> filters p = Some fs \<and> check_filters fs cols = None
          \<and> group_by p = Some gb \<and> check_group_by gb cols = None
          \<and> sort_cfg p \<noteq> Missing \<and> visualization p \<noteq> Missing"
  then have "clean_metrics [] (pre @ m # post) cols = Inl (InvalidMetricOperation (operation m))"
    using clean_metrics_bad_op [of pre cols m "[]" post] by (simp add: chart_op_def stat_op_def)
  with h assms show "validate_plan p cols = Inl (InvalidMetricOperation (operation m))"
    using validate_plan_early [of p at fs cols gb ms] by simp
qed

text \<open>
  A plan with the metrics \<open>bar\<close> and \<open>sum\<close> keeps \<open>sum\<close>; with \<open>bar\<close> and \<open>total\<close> it
  is refused for \<open>total\<close>.
\<close>

theorem chart_type_metrics_dropped_witness:
  "validate_plan (mixed_metrics_plan ''sum'') [''sales''] =
     Inr ((mixed_metrics_plan ''sum'')\<lparr>metrics := Some [\<lparr>m_column = ''sales'', operation = Some ''sum''\<rparr>]\<rparr>)
   \<and> validate_plan (mixed_metrics_plan ''total'') [''sales''] =
       Inl (InvalidMetricOperation (Some ''total''))"
proof -
  let ?bar = "\<lparr>m_column = ''sales'', operation = Some ''bar''\<rparr>"
  let ?sum = "\<lparr>m_column = ''sales'', operation = Some ''sum''\<rparr>"
  let ?tot = "\<lparr>m_column = ''sales'', operation = Some ''total''\<rparr>"
  have m1: "metrics (mixed_metrics_plan ''sum'') = Some [?bar, ?sum]"
    by (simp add: scenario_defs)
  have m2: "metrics (mixed_metrics_plan ''total'') = Some [?bar, ?tot]"
    by (simp add: scenario_defs)
  have v: "validate_plan (mixed_metrics_plan ''sum'') [''sales''] =
     Inr ((mixed_metrics_plan ''sum'')\<lparr>metrics := Some [?sum]\<rparr>)"
    by (simp add: validator_defs scenario_defs)
  have h: "[?bar, ?tot] = [?bar] @ ?tot # [] \<and> \<not> chart_op ?tot \<and> \<not> stat_op ?tot
          \<and> (\<forall>m' \<in> set [?bar]. chart_op m' \<or> (stat_op m' \<and> m_column m' \<in> set [''sales'']))
          \<and> analysis_type (mixed_metrics_plan ''total'') = Some ''aggregation''
          \<and> ''aggregation'' \<in> ALLOWED_ANALYSIS_TYPES
          \<and> filters (mixed_metrics_plan ''total'') = Some [] \<and> check_filters [] [''sales''] = None
          \<and> group_by (mixed_metrics_plan ''total'') = Some [] \<and> check_group_by [] [''sales''] = None
          \<and> sort_cfg (mixed_metrics_plan ''total'') \<noteq> Missing
          \<and> visualization (mixed_metrics_plan ''total'') \<noteq> Missing"
    by (simp add: scenario_defs chart_op_def stat_op_def in_names_def ALLOWED_METRICS_def
        INVALID_METRIC_OPERATIONS_def ALLOWED_ANALYSIS_TYPES_def)
  from chart_type_metrics_dropped [OF m2, of "[''sales'']"] h
  have "validate_plan (mixed_metrics_plan ''total'') [''sales''] =
       Inl (InvalidMetricOperation (operation ?tot))"
    by blast
  with v show ?thesis by simp
qed

section \<open>Lemmas about the executor\<close>

lemma zip_map_same:
  "map (\<lambda>(r, v). g r v) (zip xs (map h xs)) = map (\<lambda>r. g r (h r)) xs"
  by (induction xs) simp_all

lemma set_column_coerced:
  "set_column t c NumericT (coerce_numeric lib (map (\<lambda>r. r c) (rows t))) =
     \<lparr>columns = map (\<lambda>(n, d). if n = c then (n, NumericT) else (n, d)) (columns t),
      rows = map (\<lambda>r. r(c := CNum (coerce_cell lib (r c)))) (rows t)\<rparr>"
proof -
  have "map (\<lambda>(r, v). r(c := v)) (zip (rows t) (map (\<lambda>r. CNum (coerce_cell lib (r c))) (rows t)))
          = map (\<lambda>r. r(c := CNum (coerce_cell lib (r c)))) (rows t)"
    by (rule zip_map_same)
  then show ?thesis
    by (simp add: set_column_def coerce_numeric_def comp_def)
qed

lemma apply_filter_relational:
  assumes "operator f \<in> relational" and "f_column f \<in> set (names t)"
  shows "apply_filter lib t f =
     (case py_float lib (parse_list_literal lib (f_value f)) of
        Inl e \<Rightarrow> Inl e
      | Inr v \<Rightarrow>
          Inr \<lparr>columns = map (\<lambda>(n, d). if n = f_column f then (n, NumericT) else (n, d)) (columns t),
               rows = map (\<lambda>r. r(f_column f := CNum (coerce_cell lib (r (f_column f)))))
                        (filter (\<lambda>r. cell_rel (operator f) (CNum (coerce_cell lib (r (f_column f)))) v)
                           (rows t))\<rparr>)"
  using assms
  by (simp add: apply_filter_def Let_def get_column_def set_column_coerced filter_map comp_def
      split: sum.splits)

lemma apply_filter_bad_value:
  assumes "operator f \<in> relational" and "py_float lib (parse_list_literal lib (f_value f)) = Inl e"
  shows "apply_filter lib t f = Inl (if f_column f \<in> set (names t) then e else KeyError (f_column f))"
  using assms by (simp add: apply_filter_def Let_def get_column_def)

lemma py_float_unparsed:
  assumes "float_of_str lib s = None"
  shows "py_float lib (parse_list_literal lib (PStr s)) \<in> {Inl (FloatValueError s), Inl TypeError}"
  using assms by (simp add: py_float_def parse_list_literal_def split: option.splits)

lemma apply_filters_append:
  "apply_filters lib t (pre @ f # post) =
     (case apply_filters lib t pre of
        Inl e \<Rightarrow> Inl e
      | Inr t' \<Rightarrow> (case apply_filter lib t' f of Inl e \<Rightarrow> Inl e | Inr t'' \<Rightarrow> apply_filters lib t'' post))"
  by (induction pre arbitrary: t) (simp_all split: sum.splits)

lemma apply_filters_fail:
  assumes "f \<in> set fs" and "\<And>t. \<exists>e. apply_filter lib t f = Inl e"
  shows "\<exists>e. apply_filters lib t fs = Inl e"
proof -
  from assms(1) obtain pre post where fs: "fs = pre @ f # post"
    by (auto simp: in_set_conv_decomp)
  show ?thesis
  proof (cases "apply_filters lib t pre")
    case (Inl e)
    with fs show ?thesis by (simp add: apply_filters_append)
  next
    case (Inr t')
    from assms(2) obtain e where "apply_filter lib t' f = Inl e" by blast
    with Inr fs show ?thesis by (simp add: apply_filters_append)
  qed
qed

lemma execute_plan_filters_fail:
  "apply_filters lib df (plan_filters p) = Inl e \<Longrightarrow> execute_plan lib df p = Inl e"
  by (simp add: execute_plan_def truncated_result_def sorted_result_def)

lemma make_chart_errors: "make_chart lib r t x y color \<noteq> Inl (InvalidYAxis a cs)"
  by (simp add: make_chart_def px_def split: option.splits)

lemma resolve_unset:
  "resolve_y None ms cols = map_option m_column (find (\<lambda>m. m_column m \<in> set cols) ms)"
  by (cases ms) (simp_all add: resolve_y_def split: option.splits)

lemma find_column_in:
  "find (\<lambda>m. m_column m \<in> set cols) ms = Some m \<Longrightarrow> m_column m \<in> set cols"
  by (induction ms) (auto split: if_splits)

lemma retyped_column:
  "c \<in> fst ` set cs \<Longrightarrow>
     map_of (map (\<lambda>(n, d). if n = c then (n, dt) else (n, d)) cs) c = Some dt"
  by (induction cs) auto

lemma nunique_card:
  "nunique lib cells = card (cell_key lib ` {c \<in> set cells. c \<noteq> CNum NaN})"
proof -
  have "set (map (cell_key lib) (filter (\<lambda>c. c \<noteq> CNum NaN) cells))
          = cell_key lib ` {c \<in> set cells. c \<noteq> CNum NaN}"
    by auto
  then show ?thesis
    by (simp add: nunique_def length_remdups_card_conv del: set_map set_filter)
qed

lemma select_rows_subset: "set (rows (select_rows t keep)) \<subseteq> set (rows t)"
  by (auto simp: select_rows_def dest: set_zip_leftD)

lemma well_typed_rows:
  "well_typed t \<Longrightarrow> columns t' = columns t \<Longrightarrow> set (rows t') \<subseteq> set (rows t) \<Longrightarrow> well_typed t'"
  by (fastforce simp: well_typed_def list_all_iff)

lemma apply_filter_well_typed:
  assumes "apply_filter lib t f = Inr t'" and "well_typed t"
  shows "well_typed t'"
proof (cases "operator f \<in> relational")
  case True
  show ?thesis
  proof (cases "f_column f \<in> set (names t)")
    case False
    with True assms(1) show ?thesis
      by (simp add: apply_filter_def Let_def get_column_def)
  next
    case c: True
    from apply_filter_relational [OF True c, of lib] assms(1)
    obtain v where t': "t' =
          \<lparr>columns = map (\<lambda>(n, d). if n = f_column f then (n, NumericT) else (n, d)) (columns t),
               rows = map (\<lambda>r. r(f_column f := CNum (coerce_cell lib (r (f_column f)))))
                        (filter (\<lambda>r. cell_rel (operator f) (CNum (coerce_cell lib (r (f_column f)))) v)
                           (rows t))\<rparr>"
      by (auto split: sum.splits)
    have num: "cell_fits NumericT (CNum x)" for x :: "'a pyfloat"
      by (simp add: cell_fits_def)
    have old: "cell_fits dt (r n)" if "(n, dt) \<in> set (columns t)" and "r \<in> set (rows t)" for n dt r
      using that assms(2) by (fastforce simp: well_typed_def list_all_iff)
    show ?thesis
      unfolding t' well_typed_def list_all_iff
      using num old by (auto split: if_splits)
  qed
next
  case False
  have sel: "\<And>keep. well_typed (select_rows t keep)"
    using well_typed_rows [OF assms(2)] select_rows_subset
    by (metis select_rows_def table.select_convs(1) table.surjective table.update_convs(2))
  from False assms show ?thesis
    by (auto simp: apply_filter_def Let_def sel split: if_splits sum.splits)
qed

lemma apply_filters_well_typed:
  "apply_filters lib t fs = Inr t' \<Longrightarrow> well_typed t \<Longrightarrow> well_typed t'"
  by (induction fs arbitrary: t) (auto split: sum.splits dest: apply_filter_well_typed)

lemmas executor_defs =
  execute_plan_def truncated_result_def sorted_result_def apply_filter_def aggregate_def
  count_only_def count_table_def nunique_def cell_key_def sort_stage_def ascending_def
  top_n_stage_def plan_top_n_def
  plan_focus_def truthy_def py_int_def head_def visualization_step_def resolve_y_def
  make_chart_def px_def given_def plan_filters_def plan_metrics_def plan_group_by_def
  names_def get_column_def set_column_def coerce_numeric_def coerce_cell_def cell_str_def
  remove_percent_def strip_def is_space_def relational_def parse_list_literal_def py_float_def
  cell_rel_def rel_holds_def select_rows_def lib_result_def

lemmas scenario_lib_defs =
  scenario_lib_def parse_whole_def digit_value_def text_of_def discount_row_def
  discount_table_def messy_discount_table_def discount_filter_def country_row_def
  country_table_def string_country_table_def

section \<open>The executor's claims\<close>

text \<open>
  C4, the claim as stated fails: a bar chart with no y axis and no metric leaves \<open>y\<close>
  unset, and \<open>execute_plan\<close> returns the table with no chart instead of raising.
\<close>

theorem unset_y_without_metric_column_is_no_error:
  "execute_plan scenario_lib country_table no_y_plan = Inr (country_table, None, country_table)"
  by (simp add: executor_defs scenario_defs scenario_lib_defs)

text \<open>
  C4, amended: when the stages before the chart succeed and \<open>visualization.y\<close> is unset,
  \<open>y\<close> becomes the column of the first metric whose column is among the result table's
  columns, and stays unset when there is none. \<open>execute_plan\<close> then goes on to the chart
  with that \<open>y\<close>. With no metric column among the result's columns a \<open>bar\<close>, \<open>line\<close> or
  \<open>scatter\<close> chart is silently left out and the tables are returned; with one, that
  chart is requested from plotly with the metric's column as \<open>y\<close>; a \<open>histogram\<close> is
  requested from \<open>x\<close> alone either way. In no case is the invalid-y-axis error raised.
\<close>

theorem unset_y_resolution:
  assumes "truncated_result lib df p = Inr (r, w)"
      and "visualization p = Dict v" and "viz_type v = Some t" and "t \<noteq> []"
      and "viz_y v = None"
  shows "resolve_y (viz_y v) (plan_metrics p) (names r) =
           map_option m_column (find (\<lambda>m. m_column m \<in> set (names r)) (plan_metrics p))
    \<and> execute_plan lib df p =
        (case make_chart lib r t (viz_x v) (resolve_y (viz_y v) (plan_metrics p) (names r))
                (viz_color v) of
           Inl e \<Rightarrow> Inl e
         | Inr fig \<Rightarrow> Inr (r, fig, w))
    \<and> (find (\<lambda>m. m_column m \<in> set (names r)) (plan_metrics p) = None
          \<and> t \<in> {''bar'', ''line'', ''scatter''} \<longrightarrow> execute_plan lib df p = Inr (r, None, w))
    \<and> (\<forall>m. find (\<lambda>m. m_column m \<in> set (names r)) (plan_metrics p) = Some m
          \<and> m_column m \<noteq> [] \<and> t \<in> {''bar'', ''line'', ''scatter''} \<and> given (viz_x v) \<longrightarrow>
          execute_plan lib df p =
            (case px_chart lib r \<lparr>chart_type = t, chart_x = the (viz_x v),
                                  chart_y = Some (m_column m), chart_color = viz_color v\<rparr> of
               Some msg \<Rightarrow> Inl (LibraryError msg)
             | None \<Rightarrow> Inr (r, Some \<lparr>chart_type = t, chart_x = the (viz_x v),
                                     chart_y = Some (m_column m), chart_color = viz_color v\<rparr>, w)))
    \<and> (t = ''histogram'' \<and> given (viz_x v) \<longrightarrow>
          execute_plan lib df p =
            (case px_chart lib r \<lparr>chart_type = ''histogram'', chart_x = the (viz_x v),
                                  chart_y = None, chart_color = viz_color v\<rparr> of
               Some msg \<Rightarrow> Inl (LibraryError msg)
             | None \<Rightarrow> Inr (r, Some \<lparr>chart_type = ''histogram'', chart_x = the (viz_x v),
                                     chart_y = None, chart_color = viz_color v\<rparr>, w)))
    \<and> (\<forall>y cs. execute_plan lib df p \<noteq> Inl (InvalidYAxis y cs))"
proof -
  let ?found = "find (\<lambda>m. m_column m \<in> set (names r)) (plan_metrics p)"
  let ?y = "resolve_y (viz_y v) (plan_metrics p) (names r)"
  have y: "?y = map_option m_column ?found"
    using assms(5) by (simp add: resolve_unset)
  have inside: "\<not> (given ?y \<and> the ?y \<notin> set (names r))"
  proof (cases ?found)
    case None
    with y show ?thesis by (simp add: given_def)
  next
    case (Some m)
    with y find_column_in [OF Some] show ?thesis by simp
  qed
  have ex: "execute_plan lib df p =
        (case make_chart lib r t (viz_x v) ?y (viz_color v) of
           Inl e \<Rightarrow> Inl e
         | Inr fig \<Rightarrow> Inr (r, fig, w))"
  proof -
    have "visualization_step lib r (Dict v) (plan_metrics p) =
            make_chart lib r t (viz_x v) ?y (viz_color v)"
      using assms(3,4) inside by (auto simp: visualization_step_def Let_def)
    with assms(1,2) show ?thesis by (simp add: execute_plan_def)
  qed
  have none: "?found = None \<and> t \<in> {''bar'', ''line'', ''scatter''}
                \<longrightarrow> execute_plan lib df p = Inr (r, None, w)"
    using ex y by (auto simp: make_chart_def given_def)
  have some: "\<forall>m. ?found = Some m
          \<and> m_column m \<noteq> [] \<and> t \<in> {''bar'', ''line'', ''scatter''} \<and> given (viz_x v) \<longrightarrow>
          execute_plan lib df p =
            (case px_chart lib r \<lparr>chart_type = t, chart_x = the (viz_x v),
                                  chart_y = Some (m_column m), chart_color = viz_color v\<rparr> of
               Some msg \<Rightarrow> Inl (LibraryError msg)
             | None \<Rightarrow> Inr (r, Some \<lparr>chart_type = t, chart_x = the (viz_x v),
                                     chart_y = Some (m_column m), chart_color = viz_color v\<rparr>, w))"
    using ex y by (auto simp: make_chart_def given_def px_def split: option.splits)
  have hist: "t = ''histogram'' \<and> given (viz_x v) \<longrightarrow>
          execute_plan lib df p =
            (case px_chart lib r \<lparr>chart_type = ''histogram'', chart_x = the (viz_x v),
                                  chart_y = None, chart_color = viz_color v\<rparr> of
               Some msg \<Rightarrow> Inl (LibraryError msg)
             | None \<Rightarrow> Inr (r, Some \<lparr>chart_type = ''histogram'', chart_x = the (viz_x v),
                                     chart_y = None, chart_color = viz_color v\<rparr>, w))"
    using ex by (auto simp: make_chart_def px_def split: option.splits)
  have noerr: "\<forall>y cs. execute_plan lib df p \<noteq> Inl (InvalidYAxis y cs)"
    using ex make_chart_errors [of lib r t "viz_x v" ?y "viz_color v"]
    by (auto split: sum.splits)
  from y ex none some hist noerr show ?thesis by blast
qed

text \<open>
  Three runs over the table of countries: no metric, so no chart; two metrics of which
  the second is on a column of the result, so a bar chart of \<open>population\<close>; and a
  histogram of \<open>population\<close>.
\<close>

theorem unset_y_resolution_witness:
  "execute_plan scenario_lib country_table no_y_plan = Inr (country_table, None, country_table)
   \<and> resolve_y None (plan_metrics two_metrics_plan) (names country_table) = Some ''population''
   \<and> execute_plan scenario_lib country_table two_metrics_plan =
       Inr (country_table,
            Some \<lparr>chart_type = ''bar'', chart_x = ''country'', chart_y = Some ''population'',
                  chart_color = None\<rparr>,
            country_table)
   \<and> execute_plan scenario_lib country_table histogram_plan =
       Inr (country_table,
            Some \<lparr>chart_type = ''histogram'', chart_x = ''population'', chart_y = None,
                  chart_color = None\<rparr>,
            country_table)"
proof -
  let ?v = "bar_chart (Some ''country'') None PNone"
  let ?h = "\<lparr>viz_type = Some ''histogram'', viz_x = Some ''population'', viz_y = None,
        viz_color = None, top_n = PNone :: int pyval\<rparr>"
  let ?m = "\<lparr>m_column = ''population'', operation = Some ''max''\<rparr>"
  have t1: "truncated_result scenario_lib country_table no_y_plan = Inr (country_table, country_table)"
    and t2: "truncated_result scenario_lib country_table two_metrics_plan
               = Inr (country_table, country_table)"
    and t3: "truncated_result scenario_lib country_table histogram_plan
               = Inr (country_table, country_table)"
    by (simp_all add: executor_defs scenario_defs scenario_lib_defs)
  have v1: "visualization no_y_plan = Dict ?v" and v2: "visualization two_metrics_plan = Dict ?v"
    and v3: "visualization histogram_plan = Dict ?h"
    by (simp_all add: scenario_defs)
  have b: "viz_type ?v = Some ''bar''" "''bar'' \<noteq> []" "viz_y ?v = None"
    and h: "viz_type ?h = Some ''histogram''" "''histogram'' \<noteq> []" "viz_y ?h = None"
    by (simp_all add: scenario_defs)
  have f1: "find (\<lambda>m. m_column m \<in> set (names country_table)) (plan_metrics no_y_plan) = None"
    and f2: "find (\<lambda>m. m_column m \<in> set (names country_table)) (plan_metrics two_metrics_plan)
               = Some ?m"
    by (simp_all add: plan_metrics_def scenario_defs country_table_def names_def)
  have px1: "px_chart scenario_lib country_table
               \<lparr>chart_type = ''bar'', chart_x = ''country'', chart_y = Some ''population'',
                chart_color = None\<rparr> = None"
    and px2: "px_chart scenario_lib country_table
               \<lparr>chart_type = ''histogram'', chart_x = ''population'', chart_y = None,
                chart_color = None\<rparr> = None"
    by (simp_all add: scenario_lib_def country_table_def names_def)
  from unset_y_resolution [OF t1 v1 b] f1
  have e1: "execute_plan scenario_lib country_table no_y_plan
              = Inr (country_table, None, country_table)"
    by blast
  from unset_y_resolution [OF t2 v2 b] f2
  have r2: "resolve_y (viz_y ?v) (plan_metrics two_metrics_plan) (names country_table)
              = Some ''population''"
    by simp
  have "execute_plan scenario_lib country_table two_metrics_plan =
            (case px_chart scenario_lib country_table
                    \<lparr>chart_type = ''bar'', chart_x = the (viz_x ?v),
                     chart_y = Some (m_column ?m), chart_color = viz_color ?v\<rparr> of
               Some msg \<Rightarrow> Inl (LibraryError msg)
             | None \<Rightarrow> Inr (country_table,
                   Some \<lparr>chart_type = ''bar'', chart_x = the (viz_x ?v),
                         chart_y = Some (m_column ?m), chart_color = viz_color ?v\<rparr>,
                   country_table))"
    by (rule unset_y_resolution [OF t2 v2 b, THEN conjunct2, THEN conjunct2, THEN conjunct2,
          THEN conjunct1, rule_format, of ?m])
       (simp add: f2 given_def bar_chart_def)
  with px1 have e2: "execute_plan scenario_lib country_table two_metrics_plan =
       Inr (country_table,
            Some \<lparr>chart_type = ''bar'', chart_x = ''country'', chart_y = Some ''population'',
                  chart_color = None\<rparr>,
            country_table)"
    by (simp add: bar_chart_def)
  have "execute_plan scenario_lib country_table histogram_plan =
            (case px_chart scenario_lib country_table
                    \<lparr>chart_type = ''histogram'', chart_x = the (viz_x ?h),
                     chart_y = None, chart_color = viz_color ?h\<rparr> of
               Some msg \<Rightarrow> Inl (LibraryError msg)
             | None \<Rightarrow> Inr (country_table,
                   Some \<lparr>chart_type = ''histogram'', chart_x = the (viz_x ?h),
                         chart_y = None, chart_color = viz_color ?h\<rparr>,
                   country_table))"
    by (rule unset_y_resolution [OF t3 v3 h, THEN conjunct2, THEN conjunct2, THEN conjunct2,
          THEN conjunct2, THEN conjunct1, rule_format])
       (simp add: given_def)
  with px2 have e3: "execute_plan scenario_lib country_table histogram_plan =
       Inr (country_table,
            Some \<lparr>chart_type = ''histogram'', chart_x = ''population'', chart_y = None,
                  chart_color = None\<rparr>,
            country_table)"
    by simp
  from e1 r2 e2 e3 show ?thesis by (simp add: bar_chart_def)
qed

text \<open>
  C5, the claim as stated fails: counting \<open>country\<close> gives a result table with the one
  column \<open>count\<close>; the y axis \<open>country\<close> is not among its columns, and the call ends in
  the error alone: no table reaches the caller.
\<close>

theorem invalid_y_axis_discards_result:
  "execute_plan scenario_lib country_table count_plan = Inl (InvalidYAxis ''country'' [''count''])"
  by (simp add: executor_defs scenario_defs scenario_lib_defs)

text \<open>
  C5, amended: when the stages up to the truncation have produced the result table and
  the resolved y axis is a non-empty name that is not among its columns,
  \<open>execute_plan\<close> raises the invalid-y-axis error, which names that y and the result's
  columns, and returns nothing: neither the result table nor the filtered table is
  delivered.
\<close>

theorem invalid_y_axis_is_whole_outcome:
  assumes "truncated_result lib df p = Inr (r, w)"
      and "visualization p = Dict v" and "viz_type v = Some t" and "t \<noteq> []"
      and "resolve_y (viz_y v) (plan_metrics p) (names r) = Some y"
      and "y \<noteq> []" and "y \<notin> set (names r)"
  shows "execute_plan lib df p = Inl (InvalidYAxis y (names r))
    \<and> (\<forall>res. execute_plan lib df p \<noteq> Inr res)"
  using assms by (simp add: execute_plan_def visualization_step_def Let_def given_def)

text \<open>The count of \<open>country\<close> is computed (two distinct values) and lost to the error.\<close>

theorem invalid_y_axis_is_whole_outcome_witness:
  "(\<exists>r w. truncated_result scenario_lib country_table count_plan = Inr (r, w)
       \<and> names r = [''count''] \<and> map (\<lambda>row. row ''count'') (rows r) = [CInt 2])
   \<and> execute_plan scenario_lib country_table count_plan = Inl (InvalidYAxis ''country'' [''count''])"
proof -
  let ?v = "bar_chart (Some ''country'') (Some ''country'') PNone"
  obtain r where t: "truncated_result scenario_lib country_table count_plan = Inr (r, country_table)"
    and r: "r = count_table 2"
    by (simp add: executor_defs scenario_defs scenario_lib_defs)
  have n: "names r = [''count'']" "map (\<lambda>row. row ''count'') (rows r) = [CInt 2]"
    using r by (simp_all add: count_table_def names_def)
  have v: "visualization count_plan = Dict ?v" "viz_type ?v = Some ''bar''" "''bar'' \<noteq> []"
    by (simp_all add: scenario_defs)
  have y: "resolve_y (viz_y ?v) (plan_metrics count_plan) (names r) = Some ''country''"
    by (simp add: resolve_y_def scenario_defs)
  have o: "''country'' \<noteq> []" "''country'' \<notin> set (names r)"
    using n by simp_all
  from invalid_y_axis_is_whole_outcome [OF t v y o] t n show ?thesis
    by auto
qed




text \<open>
  C7: for a plan the validator accepted whose \<open>top_n\<close> is an integer \<open>n\<close> (then
  \<open>0 < n\<close>), and whose \<open>user_intent\<close> is a dictionary or missing with focus \<open>fc\<close>: the
  table after filtering, aggregation and sorting is kept as it is when the focus is
  \<open>both\<close>, and cut to its first \<open>n\<close> rows otherwise. \<open>execute_plan\<close> hands exactly
  that table to the visualization step and returns it with the figure, or raises what
  that step raises.
\<close>

theorem top_n_skipped_exactly_for_both:
  assumes "validate_plan p0 cols = Inr p"
      and "visualization p = Dict v" and "top_n v = PInt n"
      and "sorted_result lib df p = Inr (r, w)"
      and "plan_focus p = Inr fc"
  shows "0 < n
    \<and> truncated_result lib df p =
        Inr (if fc = Some ''both'' then r else r\<lparr>rows := take (nat n) (rows r)\<rparr>, w)
    \<and> execute_plan lib df p =
        (case visualization_step lib
                (if fc = Some ''both'' then r else r\<lparr>rows := take (nat n) (rows r)\<rparr>)
                (Dict v) (plan_metrics p) of
           Inl e \<Rightarrow> Inl e
         | Inr fig \<Rightarrow>
             Inr (if fc = Some ''both'' then r else r\<lparr>rows := take (nat n) (rows r)\<rparr>, fig, w))"
proof -
  from validate_plan_top_n [OF assms(1,2)] assms(3) have n: "0 < n"
    by (simp add: top_n_ok_def)
  have tn: "plan_top_n p = Inr (PInt n)"
    using assms(2,3) by (simp add: plan_top_n_def)
  have st: "top_n_stage lib r p =
      Inr (if fc = Some ''both'' then r else r\<lparr>rows := take (nat n) (rows r)\<rparr>)"
    using tn assms(5) n by (simp add: top_n_stage_def truthy_def py_int_def head_def)
  have tr: "truncated_result lib df p =
        Inr (if fc = Some ''both'' then r else r\<lparr>rows := take (nat n) (rows r)\<rparr>, w)"
    using assms(4) st by (simp add: truncated_result_def)
  have ex: "execute_plan lib df p =
        (case visualization_step lib
                (if fc = Some ''both'' then r else r\<lparr>rows := take (nat n) (rows r)\<rparr>)
                (Dict v) (plan_metrics p) of
           Inl e \<Rightarrow> Inl e
         | Inr fig \<Rightarrow>
             Inr (if fc = Some ''both'' then r else r\<lparr>rows := take (nat n) (rows r)\<rparr>, fig, w))"
    using tr assms(2) by (simp add: execute_plan_def)
  from n tr ex show ?thesis by blast
qed

text \<open>
  Three rows and \<open>top_n = 2\<close>: \<open>execute_plan\<close> returns all three with focus \<open>both\<close> and
  the first two with focus \<open>highest\<close>, each with its bar chart.
\<close>

theorem top_n_skipped_exactly_for_both_witness:
  "validate_plan (top_two_plan ''both'') [''country'', ''population''] = Inr (top_two_plan ''both'')
   \<and> validate_plan (top_two_plan ''highest'') [''country'', ''population'']
       = Inr (top_two_plan ''highest'')
   \<and> execute_plan scenario_lib country_table (top_two_plan ''both'') =
       Inr (country_table,
            Some \<lparr>chart_type = ''bar'', chart_x = ''country'', chart_y = Some ''population'',
                  chart_color = None\<rparr>,
            country_table)
   \<and> execute_plan scenario_lib country_table (top_two_plan ''highest'') =
       Inr (country_table\<lparr>rows := [country_row ''Peru'' 33, country_row ''Chile'' 19]\<rparr>,
            Some \<lparr>chart_type = ''bar'', chart_x = ''country'', chart_y = Some ''population'',
                  chart_color = None\<rparr>,
            country_table)"
proof -
  let ?v = "bar_chart (Some ''country'') (Some ''population'') (PInt 2)"
  let ?c = "\<lparr>chart_type = ''bar'', chart_x = ''country'', chart_y = Some ''population'',
                  chart_color = None\<rparr>"
  let ?two = "country_table\<lparr>rows := [country_row ''Peru'' 33, country_row ''Chile'' 19]\<rparr>"
  have v1: "validate_plan (top_two_plan ''both'') [''country'', ''population'']
              = Inr (top_two_plan ''both'')"
    by (simp add: validator_defs scenario_defs)
  have v2: "validate_plan (top_two_plan ''highest'') [''country'', ''population'']
              = Inr (top_two_plan ''highest'')"
    by (simp add: validator_defs scenario_defs)
  have d1: "visualization (top_two_plan ''both'') = Dict ?v"
    and d2: "visualization (top_two_plan ''highest'') = Dict ?v"
    and tn: "top_n ?v = PInt 2"
    by (simp_all add: scenario_defs)
  have s1: "sorted_result scenario_lib country_table (top_two_plan ''both'')
              = Inr (country_table, country_table)"
    by (simp add: executor_defs scenario_defs scenario_lib_defs)
  have s2: "sorted_result scenario_lib country_table (top_two_plan ''highest'')
              = Inr (country_table, country_table)"
    by (simp add: executor_defs scenario_defs scenario_lib_defs)
  have f1: "plan_focus (top_two_plan ''both'') = Inr (Some ''both'')"
    and f2: "plan_focus (top_two_plan ''highest'') = Inr (Some ''highest'')"
    by (simp_all add: plan_focus_def scenario_defs)
  have two: "country_table\<lparr>rows := take (nat 2) (rows country_table)\<rparr> = ?two"
    by (simp add: country_table_def)
  have z1: "visualization_step scenario_lib country_table (Dict ?v)
              (plan_metrics (top_two_plan ''both'')) = Inr (Some ?c)"
    by (simp add: executor_defs scenario_defs scenario_lib_def country_table_def)
  have z2: "visualization_step scenario_lib ?two (Dict ?v)
              (plan_metrics (top_two_plan ''highest'')) = Inr (Some ?c)"
    by (simp add: executor_defs scenario_defs scenario_lib_def country_table_def)
  have e1: "execute_plan scenario_lib country_table (top_two_plan ''both'')
              = Inr (country_table, Some ?c, country_table)"
    using top_n_skipped_exactly_for_both [OF v1 d1 tn s1 f1] z1 by simp
  have e2: "execute_plan scenario_lib country_table (top_two_plan ''highest'')
              = Inr (?two, Some ?c, country_table)"
    using top_n_skipped_exactly_for_both [OF v2 d2 tn s2 f2] z2 two by simp
  from v1 v2 e1 e2 show ?thesis by simp
qed

text \<open>
  C8, the claim as stated fails: a column that holds text but whose dtype is \<open>string\<close>
  rather than \<open>object\<close> is counted by its rows. The three country names, two of them
  distinct, give the count 3.
\<close>

theorem text_column_of_string_dtype_counts_rows:
  "well_typed string_country_table
   \<and> map (\<lambda>r. r ''country'') (rows string_country_table)
       = [CStr (text_of ''Peru''), CStr (text_of ''Chile''), CStr (text_of ''Peru'')]
   \<and> nunique scenario_lib (map (\<lambda>r. r ''country'') (rows string_country_table)) = 2
   \<and> aggregate scenario_lib string_country_table (plan_metrics count_plan) (plan_group_by count_plan)
       = Inr (count_table 3)"
  by (simp add: executor_defs scenario_defs scenario_lib_defs well_typed_def cell_fits_def)

text \<open>
  C8, amended: with no group-by column and exactly one metric, a \<open>count\<close>, on a column of
  the filtered table, the aggregation returns a table with the single column \<open>count\<close>
  and a single row. What decides its cell is the dtype of the counted column, not the
  values it holds: for the dtype \<open>object\<close>, which a column of Python strings has, the
  cell is the number of distinct values of the column, the missing value left out and
  values told apart as Python does; for every other dtype, the dedicated \<open>string\<close> and
  \<open>category\<close> dtypes included, it is the number of rows of the filtered table. In a
  well-typed table the dtype bounds what the cells are: numbers in a numeric column,
  text or the missing value in a \<open>string\<close> column, anything in an \<open>object\<close> column.
\<close>

theorem scalar_count_mode:
  assumes "plan_group_by p = []" and "plan_metrics p = [m]"
      and "operation m = Some ''count''"
      and "map_of (columns w) (m_column m) = Some dt"
  shows "\<exists>t. aggregate lib w (plan_metrics p) (plan_group_by p) = Inr t
    \<and> names t = [''count''] \<and> length (rows t) = 1
    \<and> map (\<lambda>r. r ''count'') (rows t) =
        [CInt (int (if dt = ObjectT
                    then card (cell_key lib `
                           {c \<in> set (map (\<lambda>r. r (m_column m)) (rows w)). c \<noteq> CNum NaN})
                    else length (rows w)))]
    \<and> (well_typed w \<longrightarrow> (\<forall>r \<in> set (rows w). cell_fits dt (r (m_column m))))"
proof -
  define k where "k = (if dt = ObjectT then nunique lib (map (\<lambda>r. r (m_column m)) (rows w))
            else length (rows w))"
  obtain t0 where a: "aggregate lib w (plan_metrics p) (plan_group_by p) = Inr t0"
    and t0: "t0 = count_table k"
    using assms by (simp add: aggregate_def count_only_def k_def)
  have n: "k = (if dt = ObjectT
                    then card (cell_key lib `
                           {c \<in> set (map (\<lambda>r. r (m_column m)) (rows w)). c \<noteq> CNum NaN})
                    else length (rows w))"
    unfolding k_def by (simp only: nunique_card)
  have t: "names t0 = [''count'']" "length (rows t0) = 1"
    "map (\<lambda>r. r ''count'') (rows t0) = [CInt (int k)]"
    by (simp_all add: t0 count_table_def names_def)
  have f: "well_typed w \<longrightarrow> (\<forall>r \<in> set (rows w). cell_fits dt (r (m_column m)))"
    using map_of_SomeD [OF assms(4)] by (fastforce simp: well_typed_def list_all_iff)
  show ?thesis
    apply (rule exI [of _ t0])
    apply (intro conjI)
        apply (rule a)
       apply (rule t(1))
      apply (rule t(2))
     apply (subst n [symmetric])
     apply (rule t(3))
    apply (rule f)
    done
qed

text \<open>
  Over the table of countries: the count of the \<open>object\<close> column \<open>country\<close> is 2, the
  number of distinct names, and the count of the numeric column \<open>population\<close> is 3,
  the number of rows.
\<close>

theorem scalar_count_mode_witness:
  "well_typed country_table
   \<and> (\<exists>t. aggregate scenario_lib country_table (plan_metrics count_plan) (plan_group_by count_plan)
          = Inr t
        \<and> names t = [''count''] \<and> map (\<lambda>r. r ''count'') (rows t) = [CInt 2])
   \<and> (\<exists>t. aggregate scenario_lib country_table (plan_metrics count_population_plan)
            (plan_group_by count_population_plan)
          = Inr t
        \<and> names t = [''count''] \<and> map (\<lambda>r. r ''count'') (rows t) = [CInt 3])"
proof -
  let ?m = "\<lparr>m_column = ''country'', operation = Some ''count''\<rparr>"
  let ?k = "\<lparr>m_column = ''population'', operation = Some ''count''\<rparr>"
  have wt: "well_typed country_table"
    by (simp add: well_typed_def cell_fits_def scenario_lib_defs)
  have g: "plan_group_by count_plan = []" and ms: "plan_metrics count_plan = [?m]"
    and op: "operation ?m = Some ''count''"
    and g': "plan_group_by count_population_plan = []"
    and ms': "plan_metrics count_population_plan = [?k]"
    and op': "operation ?k = Some ''count''"
    by (simp_all add: plan_group_by_def plan_metrics_def scenario_defs)
  have c1: "map_of (columns country_table) (m_column ?m) = Some ObjectT"
    and c2: "map_of (columns country_table) (m_column ?k) = Some NumericT"
    by (simp_all add: country_table_def)
  have "nunique scenario_lib (map (\<lambda>r. r (m_column ?m)) (rows country_table)) = 2"
    by (simp add: nunique_def cell_key_def scenario_lib_defs)
  then have d: "card (cell_key scenario_lib `
                  {c \<in> set (map (\<lambda>r. r (m_column ?m)) (rows country_table)). c \<noteq> CNum NaN}) = 2"
    by (simp only: nunique_card)
  have l: "length (rows country_table) = 3"
    by (simp add: country_table_def)
  from scalar_count_mode [OF g ms op c1, of scenario_lib] d
  have first: "\<exists>t. aggregate scenario_lib country_table (plan_metrics count_plan)
                   (plan_group_by count_plan) = Inr t
        \<and> names t = [''count''] \<and> map (\<lambda>r. r ''count'') (rows t) = [CInt 2]"
    by auto
  from scalar_count_mode [OF g' ms' op' c2, of scenario_lib] l
  have second: "\<exists>t. aggregate scenario_lib country_table (plan_metrics count_population_plan)
                   (plan_group_by count_population_plan) = Inr t
        \<and> names t = [''count''] \<and> map (\<lambda>r. r ''count'') (rows t) = [CInt 3]"
    by auto
  from wt first second show ?thesis by blast
qed

text \<open>
  C9, the claim's example fails: with the filter value \<open>10%\<close> of Scenario B the call
  raises, since \<open>float("10%")\<close> is a \<open>ValueError\<close>; only the column is stripped of \<open>%\<close>.
\<close>

theorem scenario_B_raises:
  "execute_plan scenario_lib discount_table
     (base_plan\<lparr>filters := Some [discount_filter ''>'' ''10%'']\<rparr>)
     = Inl (FloatValueError ''10%'')"
  by (simp add: executor_defs scenario_defs scenario_lib_defs)

text \<open>
  C9, amended: for a relational filter on a column of the table whose value converts to
  a float \<open>v\<close>, the filter step does not raise whatever the cells hold. Each cell is
  coerced by taking its text, removing every \<open>%\<close>, stripping the white space at both
  ends and parsing; the column becomes numeric and holds the parsed numbers; the rows
  kept are those whose number stands in the stated relation to \<open>v\<close>, so a cell that
  does not parse (the missing value) drops its row.
\<close>

theorem relational_filter_coerces_column:
  assumes "operator f \<in> relational" and "f_column f \<in> set (names t)"
      and "py_float lib (parse_list_literal lib (f_value f)) = Inr v"
  shows "\<exists>t'. apply_filter lib t f = Inr t' \<and> names t' = names t
    \<and> map_of (columns t') (f_column f) = Some NumericT
    \<and> rows t' =
        map (\<lambda>r. r(f_column f :=
                     CNum (to_numeric lib (strip (remove_percent (cell_str lib (r (f_column f))))))))
          (filter (\<lambda>r. case to_numeric lib (strip (remove_percent (cell_str lib (r (f_column f))))) of
                          NaN \<Rightarrow> False
                        | Fin x \<Rightarrow> (case v of NaN \<Rightarrow> False | Fin y \<Rightarrow> rel_holds (operator f) x y))
             (rows t))"
proof -
  have eq: "(\<lambda>r. cell_rel (operator f) (CNum (coerce_cell lib (r (f_column f)))) v) =
            (\<lambda>r. case to_numeric lib (strip (remove_percent (cell_str lib (r (f_column f))))) of
                          NaN \<Rightarrow> False
                        | Fin x \<Rightarrow> (case v of NaN \<Rightarrow> False | Fin y \<Rightarrow> rel_holds (operator f) x y))"
    by (auto simp: cell_rel_def coerce_cell_def fun_eq_iff split: pyfloat.splits)
  have up: "(\<lambda>r. r(f_column f := CNum (coerce_cell lib (r (f_column f))))) =
            (\<lambda>r. r(f_column f :=
                     CNum (to_numeric lib (strip (remove_percent (cell_str lib (r (f_column f))))))))"
    by (simp add: coerce_cell_def)
  let ?t' = "\<lparr>columns = map (\<lambda>(n, d). if n = f_column f then (n, NumericT) else (n, d)) (columns t),
               rows = map (\<lambda>r. r(f_column f := CNum (coerce_cell lib (r (f_column f)))))
                        (filter (\<lambda>r. cell_rel (operator f) (CNum (coerce_cell lib (r (f_column f)))) v)
                           (rows t))\<rparr>"
  have a: "apply_filter lib t f = Inr ?t'"
    using apply_filter_relational [OF assms(1,2), of lib] assms(3) by simp
  have n: "names ?t' = names t"
    by (auto simp: names_def)
  have d: "map_of (columns ?t') (f_column f) = Some NumericT"
    using assms(2) retyped_column [of "f_column f" "columns t" NumericT]
    by (simp add: names_def)
  have r: "rows ?t' =
        map (\<lambda>r. r(f_column f :=
                     CNum (to_numeric lib (strip (remove_percent (cell_str lib (r (f_column f))))))))
          (filter (\<lambda>r. case to_numeric lib (strip (remove_percent (cell_str lib (r (f_column f))))) of
                          NaN \<Rightarrow> False
                        | Fin x \<Rightarrow> (case v of NaN \<Rightarrow> False | Fin y \<Rightarrow> rel_holds (operator f) x y))
             (rows t))"
    by (simp only: eq up table.simps)
  from a n d r show ?thesis by blast
qed

text \<open>
  The column holding \<open>15\<close> between a space and a no-break space before its \<open>%\<close>,
  \<open>5 %\<close> with a tab, \<open>n/a\<close> and a missing value coerces to 15, 5 and two missing
  values. The filter \<open>> "10"\<close> keeps the row of 15 and \<open><= "10"\<close> the row of 5; the two
  rows that do not parse are dropped by both.
\<close>

theorem relational_filter_coerces_column_witness:
  "map (coerce_cell scenario_lib) (map (\<lambda>r. r ''discount'') (rows messy_discount_table))
       = [Fin 15, Fin 5, NaN, NaN]
   \<and> (\<exists>t'. apply_filter scenario_lib messy_discount_table (discount_filter ''>'' ''10'') = Inr t'
         \<and> names t' = [''discount'']
         \<and> map (\<lambda>r. r ''discount'') (rows t') = [CNum (Fin 15)])
   \<and> (\<exists>t'. apply_filter scenario_lib messy_discount_table (discount_filter ''<='' ''10'') = Inr t'
         \<and> names t' = [''discount'']
         \<and> map (\<lambda>r. r ''discount'') (rows t') = [CNum (Fin 5)])"
proof -
  let ?gt = "discount_filter ''>'' ''10''"
  let ?le = "discount_filter ''<='' ''10''"
  have a: "operator ?gt \<in> relational" "operator ?le \<in> relational"
    by (simp_all add: discount_filter_def relational_def)
  have b: "f_column ?gt \<in> set (names messy_discount_table)"
      "f_column ?le \<in> set (names messy_discount_table)"
    by (simp_all add: discount_filter_def messy_discount_table_def names_def)
  have c: "py_float scenario_lib (parse_list_literal scenario_lib (f_value ?gt)) = Inr (Fin 10)"
      "py_float scenario_lib (parse_list_literal scenario_lib (f_value ?le)) = Inr (Fin 10)"
    by (simp_all add: executor_defs scenario_lib_defs)
  have p: "to_numeric scenario_lib (strip (remove_percent [32, 49, 53, 160, 37])) = Fin 15"
      "to_numeric scenario_lib (strip (remove_percent [53, 32, 37, 9])) = Fin 5"
      "to_numeric scenario_lib (strip (remove_percent (text_of ''n/a''))) = NaN"
      "to_numeric scenario_lib (strip (remove_percent (astype_str scenario_lib (CNum NaN)))) = NaN"
    by (simp_all add: executor_defs scenario_lib_defs)
  have d: "map (coerce_cell scenario_lib) (map (\<lambda>r. r ''discount'') (rows messy_discount_table))
       = [Fin 15, Fin 5, NaN, NaN]"
    using p by (simp add: coerce_cell_def cell_str_def messy_discount_table_def discount_row_def)
  from relational_filter_coerces_column [OF a(1) b(1) c(1)] p
  have gt: "\<exists>t'. apply_filter scenario_lib messy_discount_table ?gt = Inr t'
         \<and> names t' = [''discount'']
         \<and> map (\<lambda>r. r ''discount'') (rows t') = [CNum (Fin 15)]"
    by (auto simp: cell_str_def messy_discount_table_def discount_row_def discount_filter_def
        names_def rel_holds_def)
  from relational_filter_coerces_column [OF a(2) b(2) c(2)] p
  have le: "\<exists>t'. apply_filter scenario_lib messy_discount_table ?le = Inr t'
         \<and> names t' = [''discount'']
         \<and> map (\<lambda>r. r ''discount'') (rows t') = [CNum (Fin 5)]"
    by (auto simp: cell_str_def messy_discount_table_def discount_row_def discount_filter_def
        names_def rel_holds_def)
  from d gt le show ?thesis by blast
qed

text \<open>
  C10: a plan with a relational filter whose value is a string that \<open>float\<close> does not
  parse makes \<open>execute_plan\<close> raise. When the filters before it succeed and its column
  exists, the exception is the one of the float conversion: \<open>ValueError\<close>, or
  \<open>TypeError\<close> when the string was first read as a list.
\<close>

theorem unparsed_filter_value_raises:
  assumes "f \<in> set (plan_filters p)" and "operator f \<in> relational"
      and "f_value f = PStr s" and "float_of_str lib s = None"
  shows "(\<exists>e. execute_plan lib df p = Inl e)
    \<and> (\<forall>pre post t. plan_filters p = pre @ f # post \<and> apply_filters lib df pre = Inr t
          \<and> f_column f \<in> set (names t)
          \<longrightarrow> execute_plan lib df p \<in> {Inl (FloatValueError s), Inl TypeError})"
proof -
  from py_float_unparsed [OF assms(4)] assms(3)
  have bad: "py_float lib (parse_list_literal lib (f_value f)) \<in> {Inl (FloatValueError s), Inl TypeError}"
    by simp
  then obtain e where e: "py_float lib (parse_list_literal lib (f_value f)) = Inl e"
    and ee: "e = FloatValueError s \<or> e = TypeError"
    by auto
  have "\<And>t. \<exists>e'. apply_filter lib t f = Inl e'"
    using apply_filter_bad_value [OF assms(2) e] by blast
  from apply_filters_fail [OF assms(1) this]
  obtain e' where "apply_filters lib df (plan_filters p) = Inl e'" by blast
  then have first: "\<exists>e. execute_plan lib df p = Inl e"
    using execute_plan_filters_fail by blast
  have second: "\<forall>pre post t. plan_filters p = pre @ f # post \<and> apply_filters lib df pre = Inr t
          \<and> f_column f \<in> set (names t)
          \<longrightarrow> execute_plan lib df p \<in> {Inl (FloatValueError s), Inl TypeError}"
  proof (intro allI impI)
    fix pre post t
    assume h: "plan_filters p = pre @ f # post \<and> apply_filters lib df pre = Inr t
          \<and> f_column f \<in> set (names t)"
    then have "apply_filter lib t f = Inl e"
      using apply_filter_bad_value [OF assms(2) e, of t] by simp
    with h have "apply_filters lib df (plan_filters p) = Inl e"
      by (simp add: apply_filters_append)
    then have "execute_plan lib df p = Inl e" by (rule execute_plan_filters_fail)
    with ee show "execute_plan lib df p \<in> {Inl (FloatValueError s), Inl TypeError}" by auto
  qed
  from first second show ?thesis by blast
qed

text \<open>The filter \<open>discount > "abc"\<close> raises the \<open>ValueError\<close> of \<open>float("abc")\<close>.\<close>

theorem unparsed_filter_value_raises_witness:
  "discount_filter ''>'' ''abc'' \<in> set (plan_filters (base_plan\<lparr>filters := Some [discount_filter ''>'' ''abc'']\<rparr>))
   \<and> float_of_str scenario_lib ''abc'' = None
   \<and> execute_plan scenario_lib discount_table (base_plan\<lparr>filters := Some [discount_filter ''>'' ''abc'']\<rparr>)
       = Inl (FloatValueError ''abc'')"
proof -
  let ?p = "base_plan\<lparr>filters := Some [discount_filter ''>'' ''abc'']\<rparr>"
  have a: "discount_filter ''>'' ''abc'' \<in> set (plan_filters ?p)"
    by (simp add: plan_filters_def)
  have b: "operator (discount_filter ''>'' ''abc'') \<in> relational"
    by (simp add: discount_filter_def relational_def)
  have c: "f_value (discount_filter ''>'' ''abc'') = PStr ''abc''"
    by (simp add: discount_filter_def)
  have d: "float_of_str scenario_lib ''abc'' = None"
    by (simp add: scenario_lib_defs strip_def is_space_def)
  from unparsed_filter_value_raises [OF a b c d, of discount_table]
  have "\<exists>e. execute_plan scenario_lib discount_table ?p = Inl e" by blast
  then have "execute_plan scenario_lib discount_table ?p = Inl (FloatValueError ''abc'')"
    by (auto simp: executor_defs scenario_defs scenario_lib_defs)
  with a d show ?thesis by simp
qed


end
